theory Spec2Isabelle
  imports Main "HOL-Library.Sublist"
begin

section \<open>Python strings\<close>

text \<open>
  A Python \<open>str\<close> is modelled as a \<open>string\<close> holding its UTF-8 bytes. ASCII text is one
  \<open>char\<close> per character; the few non-ASCII characters of the prompt templates appear as
  their UTF-8 byte sequences. \<open>x in s\<close> on strings is \<open>sublist x s\<close> (a contiguous infix).
  Case mapping is modelled for the ASCII letters only: \<open>str.lower\<close> on cased non-ASCII
  letters is outside the model.
\<close>

definition lower_char :: "char \<Rightarrow> char" where
  "lower_char c =
     (case map_of (zip ''ABCDEFGHIJKLMNOPQRSTUVWXYZ'' ''abcdefghijklmnopqrstuvwxyz'') c of
        Some l \<Rightarrow> l
      | None \<Rightarrow> c)"

definition lower :: "string \<Rightarrow> string" where
  \<comment> \<open>\<open>s.lower()\<close>\<close>
  "lower s = map lower_char s"

definition replace_char :: "char \<Rightarrow> char \<Rightarrow> string \<Rightarrow> string" where
  \<comment> \<open>\<open>s.replace(old, new)\<close> for one-character \<open>old\<close> and \<open>new\<close>\<close>
  "replace_char old new s = map (\<lambda>c. if c = old then new else c) s"

fun join :: "string \<Rightarrow> string list \<Rightarrow> string" where
  \<comment> \<open>\<open>sep.join(xs)\<close>\<close>
  "join sep [] = []"
| "join sep [x] = x"
| "join sep (x # y # ys) = x @ sep @ join sep (y # ys)"

definition py_len :: "string \<Rightarrow> nat" where
  \<comment> \<open>\<open>len(s)\<close> counts code points: the bytes that are not UTF-8 continuation bytes\<close>
  "py_len s = length (filter (\<lambda>c. \<not> (128 \<le> (of_char c :: nat) \<and> (of_char c :: nat) < 192)) s)"

definition digit_char :: "nat \<Rightarrow> char" where
  "digit_char d = ''0123456789'' ! d"

function str_nat :: "nat \<Rightarrow> string" where
  "str_nat n = (if n < 10 then [digit_char n] else str_nat (n div 10) @ [digit_char (n mod 10)])"
  by pat_completeness auto
termination
  by (relation "measure id") auto

declare str_nat.simps [simp del]

definition str_int :: "int \<Rightarrow> string" where
  \<comment> \<open>\<open>str(i)\<close> for an \<open>int\<close>\<close>
  "str_int i = (if i < 0 then CHR ''-'' # str_nat (nat (- i)) else str_nat (nat i))"

definition hex_digit :: "nat \<Rightarrow> char" where
  "hex_digit d = ''0123456789abcdef'' ! d"

definition repr_char :: "char \<Rightarrow> char \<Rightarrow> string" where
  \<comment> \<open>one character inside \<open>repr(s)\<close>, \<open>q\<close> being the chosen quote\<close>
  "repr_char q c =
     (if c = q \<or> c = CHR 0x5C then [CHR 0x5C, c]
      else if c = CHR 0x09 then [CHR 0x5C, CHR ''t'']
      else if c = CHR 0x0A then [CHR 0x5C, CHR ''n'']
      else if c = CHR 0x0D then [CHR 0x5C, CHR ''r'']
      else if (of_char c :: nat) < 32 \<or> c = CHR 0x7F
        then [CHR 0x5C, CHR ''x'', hex_digit ((of_char c :: nat) div 16),
              hex_digit ((of_char c :: nat) mod 16)]
      else [c])"

definition repr_str :: "string \<Rightarrow> string" where
  \<comment> \<open>\<open>repr(s)\<close> for a \<open>str\<close>: single quotes unless the text has a single and no double
      quote; non-ASCII characters are taken to be printable\<close>
  "repr_str s =
     (let q = (if CHR 0x27 \<in> set s \<and> CHR 0x22 \<notin> set s then CHR 0x22 else CHR 0x27)
      in q # concat (map (repr_char q) s) @ [q])"

section \<open>Python values\<close>

text \<open>
  The values that reach the pipeline from the decoded JSON of the extraction service.
  A \<open>float\<close> is carried as the decimal literal that \<open>repr\<close> prints for it: \<open>repr\<close>
  round-trips, so the literal determines the float. A \<open>dict\<close> is an association list in
  insertion order, read with \<open>map_of\<close>.
\<close>

datatype number = PyInt int | PyFloat string

datatype pyval =
    PNone
  | PBool bool
  | PNum number
  | PStr string
  | PList "pyval list"
  | PDict "(string \<times> pyval) list"

definition str_number :: "number \<Rightarrow> string" where
  "str_number x = (case x of PyInt i \<Rightarrow> str_int i | PyFloat l \<Rightarrow> l)"

fun py_repr :: "pyval \<Rightarrow> string" where
  "py_repr PNone = ''None''"
| "py_repr (PBool b) = (if b then ''True'' else ''False'')"
| "py_repr (PNum x) = str_number x"
| "py_repr (PStr s) = repr_str s"
| "py_repr (PList xs) = ''['' @ join '', '' (map py_repr xs) @ '']''"
| "py_repr (PDict kvs) =
     ''{'' @ join '', '' (map (\<lambda>(k, v). repr_str k @ '': '' @ py_repr v) kvs) @ ''}''"

definition py_str :: "pyval \<Rightarrow> string" where
  \<comment> \<open>\<open>str(v)\<close>, which is what an f-string field \<open>{v}\<close> inserts\<close>
  "py_str v = (case v of PStr s \<Rightarrow> s | _ \<Rightarrow> py_repr v)"

fun truthy :: "pyval \<Rightarrow> bool" where
  \<comment> \<open>\<open>bool(v)\<close>, so \<open>not v\<close> is \<open>\<not> truthy v\<close>\<close>
  "truthy PNone = False"
| "truthy (PBool b) = b"
| "truthy (PNum (PyInt i)) = (i \<noteq> 0)"
| "truthy (PNum (PyFloat l)) = (l \<noteq> ''0.0'' \<and> l \<noteq> ''-0.0'')"
| "truthy (PStr s) = (s \<noteq> [])"
| "truthy (PList xs) = (xs \<noteq> [])"
| "truthy (PDict kvs) = (kvs \<noteq> [])"

definition type_name :: "pyval \<Rightarrow> string" where
  \<comment> \<open>\<open>type(v).__name__\<close>\<close>
  "type_name v =
     (case v of PNone \<Rightarrow> ''NoneType'' | PBool _ \<Rightarrow> ''bool''
      | PNum (PyInt _) \<Rightarrow> ''int'' | PNum (PyFloat _) \<Rightarrow> ''float''
      | PStr _ \<Rightarrow> ''str'' | PList _ \<Rightarrow> ''list'' | PDict _ \<Rightarrow> ''dict'')"

section \<open>Exceptions and the two remote services\<close>

text \<open>
  What a call can raise: an instance of \<open>Exception\<close>, the class both \<open>except\<close> clauses
  name, or an instance of \<open>BaseException\<close> that is none of \<open>Exception\<close>
  (\<open>KeyboardInterrupt\<close>, \<open>SystemExit\<close>, \<open>GeneratorExit\<close>), which these clauses do not
  catch. Either carries what \<open>str(e)\<close> prints. A computation that may raise returns
  \<open>exn + 'a\<close>, \<open>Inl\<close> being the raise.
\<close>

datatype exn =
    is_Exception: Exception (description: string)
  | OtherBaseException (description: string)

datatype schema_class = ExtractSchema | IndustryTrendsSchema

text \<open>
  The arguments of one \<open>firecrawl.extract\<close> call. \<open>req_schema\<close> names the class whose
  \<open>model_json_schema()\<close> is sent. \<open>app.py\<close> passes \<open>prompt\<close> and \<open>schema\<close> as keyword
  arguments, \<open>job-hunt.py\<close> inside a \<open>params\<close> dict.
\<close>

record extract_request =
  req_urls :: "string list"
  req_prompt :: string
  req_schema :: schema_class

text \<open>The response object \<open>app.py\<close> reads, with the fields of \<open>FirecrawlResponse\<close>.\<close>

record firecrawl_response =
  success :: bool
  data :: pyval
  status :: string
  expiresAt :: string

text \<open>
  What one call of a pipeline method did: the value it returned or the exception it
  raised, and the calls it made to \<open>firecrawl.extract\<close> and \<open>agent.run\<close>, in order.
  The debugging \<open>print\<close> calls are not recorded.
\<close>

record outcome =
  result :: "exn + string"
  extract_calls :: "extract_request list"
  run_calls :: "string list"

definition py_get :: "pyval \<Rightarrow> string \<Rightarrow> pyval \<Rightarrow> exn + pyval" where
  \<comment> \<open>\<open>d.get(key, default)\<close>; only a \<open>dict\<close> has the method\<close>
  "py_get d key dflt =
     (case d of
        PDict kvs \<Rightarrow> Inr (case map_of kvs key of Some v \<Rightarrow> v | None \<Rightarrow> dflt)
      | _ \<Rightarrow> Inl (Exception ([CHR 0x27] @ type_name d @ [CHR 0x27] @
                 '' object has no attribute '' @ [CHR 0x27] @ ''get'' @ [CHR 0x27])))"

definition dict_item :: "(string \<times> pyval) list \<Rightarrow> string \<Rightarrow> exn + pyval" where
  \<comment> \<open>\<open>d[key]\<close> on a \<open>dict\<close>; \<open>str\<close> of a \<open>KeyError\<close> is the \<open>repr\<close> of the key\<close>
  "dict_item kvs key =
     (case map_of kvs key of Some v \<Rightarrow> Inr v | None \<Rightarrow> Inl (Exception (repr_str key)))"

section \<open>Query building\<close>

definition format_for_url :: "string \<Rightarrow> string" where
  \<comment> \<open>\<open>s.lower().replace(" ", "-")\<close>\<close>
  "format_for_url s = replace_char CHR '' '' CHR ''-'' (lower s)"

definition job_search_urls :: "string \<Rightarrow> string \<Rightarrow> string list" where
  \<comment> \<open>the list \<open>urls\<close> of \<open>find_jobs\<close>\<close>
  "job_search_urls formatted_job_title formatted_location =
     [''https://www.naukri.com/'' @ formatted_job_title @ ''-jobs-in-'' @ formatted_location,
      ''https://www.indeed.com/jobs?q='' @ formatted_job_title @ ''&l='' @ formatted_location,
      ''https://www.monster.com/jobs/search/?q='' @ formatted_job_title @ ''&where='' @
        formatted_location]"

definition industry_trend_urls :: "string \<Rightarrow> string list" where
  \<comment> \<open>the list \<open>urls\<close> of \<open>get_industry_trends\<close>\<close>
  "industry_trend_urls job_category =
     [''https://www.payscale.com/research/US/Job='' @
        replace_char CHR '' '' CHR ''-'' job_category @ ''/Salary'',
      ''https://www.glassdoor.com/Salaries/'' @
        replace_char CHR '' '' CHR ''-'' (lower job_category) @ ''-salary-SRCH_KO0,'' @
        str_nat (py_len job_category) @ ''.htm'']"

section \<open>Prompts and messages\<close>

text \<open>The f-strings of the two methods; they are the same text in both source files.\<close>

definition job_extraction_prompt :: "string \<Rightarrow> string \<Rightarrow> number \<Rightarrow> string \<Rightarrow> string" where
  \<comment> \<open>the \<open>prompt\<close> of the extraction request of \<open>find_jobs\<close>\<close>
  "job_extraction_prompt job_title location experience_years skills_string = concat
     ['' Extract Job Posting by region , roles, job titles and  experience from these job sites.\<newline>'',
      ''\<newline>'',
      ''                    Look for Jobs that match these criteria:\<newline>'',
      ''                    -Job Title: Should be related to '',
      job_title,
      ''\<newline>'',
      ''                    -Location: '',
      location,
      '' (include remote Jobs if available)\<newline>'',
      ''                    -Experience: Around '',
      str_number experience_years,
      '' years\<newline>'',
      ''                    -Skills: Should match at least some of these skills :'',
      skills_string,
      ''\<newline>'',
      ''                    -Job Type: Full-time, Part-Time, Contract, Temperory, Internship\<newline>'',
      ''\<newline>'',
      ''                    For each Job posting, extract:\<newline>'',
      ''                    -region: The Broader region or area where the job is located\<newline>'',
      ''                    -role: The specific role or function \<newline>'',
      ''                    -job_title: The exact title of the job \<newline>'',
      ''                    -experience: The experience requirement in years or levels\<newline>'',
      ''                    -job_link: The link to the job posting \<newline>'',
      ''\<newline>'',
      ''                    IMPORTANT: Return data for at least 3 different job opportunities. MAXIMUM 10.\<newline>'',
      ''                    '']"

definition job_analysis_prompt :: "pyval \<Rightarrow> string \<Rightarrow> string \<Rightarrow> number \<Rightarrow> string \<Rightarrow> string" where
  \<comment> \<open>the text \<open>find_jobs\<close> passes to \<open>agent.run\<close>\<close>
  "job_analysis_prompt jobs job_title location experience_years skills_string = concat
     [''As a career expert, anaylze these job opportunities:\<newline>'',
      ''                \<newline>'',
      ''                Job Found in json format:\<newline>'',
      ''                '',
      py_str jobs,
      ''\<newline>'',
      ''\<newline>'',
      ''                **IMPORTANT INSTRUCTIONS:**\<newline>'',
      ''                1.ONLY analyze jobs from the above JSON data that match the user'' @ [CHR 0x27] @ ''s requirements:\<newline>'',
      ''                    -Job Title: Related to '',
      job_title,
      ''\<newline>'',
      ''                    -Location/Region: Near '',
      location,
      ''\<newline>'',
      ''                    -Experience: Around '',
      str_number experience_years,
      '' years\<newline>'',
      ''                    -skills: '',
      skills_string,
      ''\<newline>'',
      ''                    -Job type: Full-time, Part-time, Contract, Temperory, Internship\<newline>'',
      ''                2.DO NOT CREATE new Job Listings\<newline>'',
      ''                3.From the matching jobs, select 5-6 jobs that best match the user'' @ [CHR 0x27] @ ''s skills and experience\<newline>'',
      ''\<newline>'',
      ''                Please provide your analysis in this format:\<newline>'',
      ''                \<newline>'',
      ''                '' @ [CHR 0xF0, CHR 0x9F, CHR 0x92, CHR 0xBC] @ '' SELECTED JOB OPPORTUNITIES\<newline>'',
      ''                '' @ [CHR 0xE2, CHR 0x80, CHR 0xA2] @ '' List only 5-6 best matching jobs\<newline>'',
      ''                '' @ [CHR 0xE2, CHR 0x80, CHR 0xA2] @ '' For each job include:\<newline>'',
      ''                  - Job Title and Role\<newline>'',
      ''                  - Region/Location\<newline>'',
      ''                  - Experience Required\<newline>'',
      ''                  - Pros and Cons\<newline>'',
      ''                  - Job Link\<newline>'',
      ''                '' @ [CHR 0xF0, CHR 0x9F, CHR 0x94, CHR 0x8D] @ '' SKILLS MATCH ANALYSIS\<newline>'',
      ''                '' @ [CHR 0xE2, CHR 0x80, CHR 0xA2] @ '' Compare the selected jobs based on:\<newline>'',
      ''                  - Skills match with user'' @ [CHR 0x27] @ ''s profile\<newline>'',
      ''                  - Experience requirements\<newline>'',
      ''                  - Growth potential\<newline>'',
      ''\<newline>'',
      ''                '' @ [CHR 0xF0, CHR 0x9F, CHR 0x92, CHR 0xA1] @ '' RECOMMENDATIONS\<newline>'',
      ''                '' @ [CHR 0xE2, CHR 0x80, CHR 0xA2] @ '' Top 3 jobs from the selection with reasoning\<newline>'',
      ''                '' @ [CHR 0xE2, CHR 0x80, CHR 0xA2] @ '' Career growth potential\<newline>'',
      ''                '' @ [CHR 0xE2, CHR 0x80, CHR 0xA2] @ '' Points to consider before applying\<newline>'',
      ''\<newline>'',
      ''                '' @ [CHR 0xF0, CHR 0x9F, CHR 0x93, CHR 0x9D] @ '' APPLICATION TIPS\<newline>'',
      ''                '' @ [CHR 0xE2, CHR 0x80, CHR 0xA2] @ '' Job-specific application strategies\<newline>'',
      ''                '' @ [CHR 0xE2, CHR 0x80, CHR 0xA2] @ '' Resume customization tips for these roles\<newline>'',
      ''\<newline>'',
      ''                Format your response in a clear, structured way using the above sections.\<newline>'',
      ''                '']"

definition find_jobs_error_message :: "exn \<Rightarrow> string" where
  \<comment> \<open>the string the \<open>except\<close> branch of \<open>find_jobs\<close> returns\<close>
  "find_jobs_error_message e = concat
     [''An error occured while searching for jobs: '',
      description e,
      ''\<newline>'',
      ''\<newline>'',
      ''Please try again with different search parameters or check if the job sites are supported by Firecrawl.'']"

definition trends_extraction_prompt :: "string \<Rightarrow> string" where
  \<comment> \<open>the \<open>prompt\<close> of the extraction request of \<open>get_industry_trends\<close>\<close>
  "trends_extraction_prompt job_category = concat
     [''Extract industry trends data for the '',
      job_category,
      '' industry.\<newline>'',
      ''\<newline>'',
      ''                    For each industry trend, extract:\<newline>'',
      ''                    - industry: The specific industry or sub-category\<newline>'',
      ''                    - avg_salary: The average salary in this industry (as a number)\<newline>'',
      ''                    - growth_rate: The growth rate of this industry (as a number)\<newline>'',
      ''                    - demand_level: The demand level (e.g., '' @ [CHR 0x22] @ ''High'' @ [CHR 0x22] @ '', '' @ [CHR 0x22] @ ''Medium'' @ [CHR 0x22] @ '', '' @ [CHR 0x22] @ ''Low'' @ [CHR 0x22] @ '')\<newline>'',
      ''                    - top_skills: A list of top skills in demand for this industry\<newline>'',
      ''                    \<newline>'',
      ''                    IMPORTANT: \<newline>'',
      ''                    - Extract data for at least 3-5 different roles or sub-categories within this industry\<newline>'',
      ''                    - Include salary trends, growth rate, and demand level\<newline>'',
      ''                    - Identify top skills in demand for this industry\<newline>'',
      ''                    '']"

definition trends_analysis_prompt :: "pyval \<Rightarrow> string \<Rightarrow> string" where
  \<comment> \<open>the text \<open>get_industry_trends\<close> passes to \<open>agent.run\<close>\<close>
  "trends_analysis_prompt industries job_category = concat
     [''As a career expert, analyze these industry trends for '',
      job_category,
      '':\<newline>'',
      ''\<newline>'',
      ''                    '',
      py_str industries,
      ''\<newline>'',
      ''\<newline>'',
      ''                    Please provide:\<newline>'',
      ''                    1. A bullet-point summary of the salary and demand trends\<newline>'',
      ''                    2. Identify the top skills in demand for this industry\<newline>'',
      ''                    3. Career growth opportunities:\<newline>'',
      ''                       - Roles with highest growth potential\<newline>'',
      ''                       - Emerging specializations\<newline>'',
      ''                       - Skills with increasing demand\<newline>'',
      ''                    4. Specific advice for job seekers based on these trends\<newline>'',
      ''\<newline>'',
      ''                    Format the response as follows:\<newline>'',
      ''                    \<newline>'',
      ''                    '' @ [CHR 0xF0, CHR 0x9F, CHR 0x93, CHR 0x8A] @ '' INDUSTRY TRENDS SUMMARY\<newline>'',
      ''                    '' @ [CHR 0xE2, CHR 0x80, CHR 0xA2] @ '' [Bullet points for salary and demand trends]\<newline>'',
      ''\<newline>'',
      ''                    '' @ [CHR 0xF0, CHR 0x9F, CHR 0x94, CHR 0xA5] @ '' TOP SKILLS IN DEMAND\<newline>'',
      ''                    '' @ [CHR 0xE2, CHR 0x80, CHR 0xA2] @ '' [Bullet points for most sought-after skills]\<newline>'',
      ''\<newline>'',
      ''                    '' @ [CHR 0xF0, CHR 0x9F, CHR 0x93, CHR 0x88] @ '' CAREER GROWTH OPPORTUNITIES\<newline>'',
      ''                    '' @ [CHR 0xE2, CHR 0x80, CHR 0xA2] @ '' [Bullet points with growth insights]\<newline>'',
      ''\<newline>'',
      ''                    '' @ [CHR 0xF0, CHR 0x9F, CHR 0x8E, CHR 0xAF] @ '' RECOMMENDATIONS FOR JOB SEEKERS\<newline>'',
      ''                    '' @ [CHR 0xE2, CHR 0x80, CHR 0xA2] @ '' [Bullet points with specific advice]\<newline>'',
      ''                    '']"

definition no_trends_data_message :: "string \<Rightarrow> string" where
  \<comment> \<open>returned when extraction succeeded and \<open>industries\<close> is falsy\<close>
  "no_trends_data_message job_category = concat
     [''No industry trends data available for '',
      job_category,
      ''.Try a different industry category.'']"

definition no_trend_data_message :: "string \<Rightarrow> string" where
  \<comment> \<open>returned when the success flag does not hold\<close>
  "no_trend_data_message job_category = concat
     [''No industry trend data available for '',
      job_category,
      ''.Try different industry category.'']"

definition get_industry_trends_error_message :: "exn \<Rightarrow> string" where
  \<comment> \<open>the string the \<open>except\<close> branch of \<open>get_industry_trends\<close> returns\<close>
  "get_industry_trends_error_message e = concat
     [''An error occurerd while fetching industry trends: '',
      description e,
      ''\<newline>'',
      ''\<newline>'',
      ''Please try again with a different industry category or check if the sites are supported by Firecrawl. '']"

definition no_job_listing_message :: string where
  "no_job_listing_message =
     ''No job listing found matching your criteria. Try adjusting your search parameters or try different job sites.''"

section \<open>The pipeline of app.py\<close>

definition job_search_request ::
  "string \<Rightarrow> string \<Rightarrow> number \<Rightarrow> string list \<Rightarrow> extract_request" where
  \<comment> \<open>the arguments \<open>find_jobs\<close> gives to \<open>firecrawl.extract\<close>\<close>
  "job_search_request job_title location experience_years skills =
     (let formatted_job_title = format_for_url job_title;
          formatted_location = format_for_url location;
          skills_string = join '', '' skills
      in \<lparr>req_urls = job_search_urls formatted_job_title formatted_location,
          req_prompt = job_extraction_prompt job_title location experience_years skills_string,
          req_schema = ExtractSchema\<rparr>)"

definition industry_trends_request :: "string \<Rightarrow> extract_request" where
  \<comment> \<open>the arguments \<open>get_industry_trends\<close> gives to \<open>firecrawl.extract\<close>\<close>
  "industry_trends_request job_category =
     \<lparr>req_urls = industry_trend_urls job_category,
      req_prompt = trends_extraction_prompt job_category,
      req_schema = IndustryTrendsSchema\<rparr>"

definition process_jobs_response :: "firecrawl_response \<Rightarrow> exn + pyval" where
  \<comment> \<open>the block after \<open>#process the Raw response\<close> in \<open>find_jobs\<close>, giving \<open>jobs\<close>\<close>
  "process_jobs_response raw_response =
     (if success raw_response then py_get (data raw_response) ''job_postings'' (PList [])
      else Inr (PList []))"

definition find_jobs_try ::
  "(extract_request \<Rightarrow> exn + firecrawl_response) \<Rightarrow> (string \<Rightarrow> exn + string) \<Rightarrow>
   string \<Rightarrow> string \<Rightarrow> number \<Rightarrow> string list \<Rightarrow> outcome" where
  \<comment> \<open>\<open>find_jobs\<close> up to the end of its \<open>try\<close> block\<close>
  "find_jobs_try firecrawl_extract agent_run job_title location experience_years skills =
     (let skills_string = join '', '' skills;
          request = job_search_request job_title location experience_years skills
      in case firecrawl_extract request of
           Inl e \<Rightarrow> \<lparr>result = Inl e, extract_calls = [request], run_calls = []\<rparr>
         | Inr raw_response \<Rightarrow>
             (case process_jobs_response raw_response of
                Inl e \<Rightarrow> \<lparr>result = Inl e, extract_calls = [request], run_calls = []\<rparr>
              | Inr jobs \<Rightarrow>
                  if \<not> truthy jobs
                  then \<lparr>result = Inr no_job_listing_message, extract_calls = [request],
                        run_calls = []\<rparr>
                  else let analysis_prompt = job_analysis_prompt jobs job_title location
                                               experience_years skills_string
                       in \<lparr>result = agent_run analysis_prompt, extract_calls = [request],
                           run_calls = [analysis_prompt]\<rparr>))"

definition except_Exception :: "(exn \<Rightarrow> string) \<Rightarrow> outcome \<Rightarrow> outcome" where
  \<comment> \<open>\<open>except Exception as e: return message\<close> around a \<open>try\<close> block\<close>
  "except_Exception message out =
     (case result out of
        Inl e \<Rightarrow> if is_Exception e then out\<lparr>result := Inr (message e)\<rparr> else out
      | Inr _ \<Rightarrow> out)"

definition find_jobs ::
  "(extract_request \<Rightarrow> exn + firecrawl_response) \<Rightarrow> (string \<Rightarrow> exn + string) \<Rightarrow>
   string \<Rightarrow> string \<Rightarrow> number \<Rightarrow> string list \<Rightarrow> outcome" where
  "find_jobs firecrawl_extract agent_run job_title location experience_years skills =
     except_Exception find_jobs_error_message
       (find_jobs_try firecrawl_extract agent_run job_title location experience_years skills)"

definition get_industry_trends_try ::
  "(extract_request \<Rightarrow> exn + firecrawl_response) \<Rightarrow> (string \<Rightarrow> exn + string) \<Rightarrow>
   string \<Rightarrow> outcome" where
  \<comment> \<open>\<open>get_industry_trends\<close> up to the end of its \<open>try\<close> block\<close>
  "get_industry_trends_try firecrawl_extract agent_run job_category =
     (let request = industry_trends_request job_category
      in case firecrawl_extract request of
           Inl e \<Rightarrow> \<lparr>result = Inl e, extract_calls = [request], run_calls = []\<rparr>
         | Inr raw_response \<Rightarrow>
             if success raw_response
             then (case py_get (data raw_response) ''industry_trends'' (PList []) of
                     Inl e \<Rightarrow> \<lparr>result = Inl e, extract_calls = [request], run_calls = []\<rparr>
                   | Inr industries \<Rightarrow>
                       if \<not> truthy industries
                       then \<lparr>result = Inr (no_trends_data_message job_category),
                             extract_calls = [request], run_calls = []\<rparr>
                       else let analysis_prompt = trends_analysis_prompt industries job_category
                            in \<lparr>result = agent_run analysis_prompt, extract_calls = [request],
                                run_calls = [analysis_prompt]\<rparr>)
             else \<lparr>result = Inr (no_trend_data_message job_category),
                   extract_calls = [request], run_calls = []\<rparr>)"

definition get_industry_trends ::
  "(extract_request \<Rightarrow> exn + firecrawl_response) \<Rightarrow> (string \<Rightarrow> exn + string) \<Rightarrow>
   string \<Rightarrow> outcome" where
  "get_industry_trends firecrawl_extract agent_run job_category =
     except_Exception get_industry_trends_error_message
       (get_industry_trends_try firecrawl_extract agent_run job_category)"

section \<open>The pipeline of job-hunt.py\<close>

text \<open>
  Here the response of \<open>firecrawl.extract\<close> is any Python value: the methods test
  \<open>isinstance(raw_response, dict)\<close> themselves.
\<close>

definition process_jobs_response_job_hunt :: "pyval \<Rightarrow> exn + pyval" where
  \<comment> \<open>the block after \<open>#process the Raw response\<close> in \<open>find_jobs\<close>, giving \<open>jobs\<close>\<close>
  "process_jobs_response_job_hunt raw_response =
     (case raw_response of
        PDict kvs \<Rightarrow>
          if truthy (case map_of kvs ''success'' of Some v \<Rightarrow> v | None \<Rightarrow> PNone)
          then (case dict_item kvs ''data'' of
                  Inl e \<Rightarrow> Inl e
                | Inr d \<Rightarrow> py_get d ''job_postings'' (PList []))
          else Inr (PList [])
      | _ \<Rightarrow> Inr (PList []))"

definition find_jobs_try_job_hunt ::
  "(extract_request \<Rightarrow> exn + pyval) \<Rightarrow> (string \<Rightarrow> exn + string) \<Rightarrow>
   string \<Rightarrow> string \<Rightarrow> number \<Rightarrow> string list \<Rightarrow> outcome" where
  "find_jobs_try_job_hunt firecrawl_extract agent_run job_title location experience_years skills =
     (let skills_string = join '', '' skills;
          request = job_search_request job_title location experience_years skills
      in case firecrawl_extract request of
           Inl e \<Rightarrow> \<lparr>result = Inl e, extract_calls = [request], run_calls = []\<rparr>
         | Inr raw_response \<Rightarrow>
             (case process_jobs_response_job_hunt raw_response of
                Inl e \<Rightarrow> \<lparr>result = Inl e, extract_calls = [request], run_calls = []\<rparr>
              | Inr jobs \<Rightarrow>
                  if \<not> truthy jobs
                  then \<lparr>result = Inr no_job_listing_message, extract_calls = [request],
                        run_calls = []\<rparr>
                  else let analysis_prompt = job_analysis_prompt jobs job_title location
                                               experience_years skills_string
                       in \<lparr>result = agent_run analysis_prompt, extract_calls = [request],
                           run_calls = [analysis_prompt]\<rparr>))"

definition find_jobs_job_hunt ::
  "(extract_request \<Rightarrow> exn + pyval) \<Rightarrow> (string \<Rightarrow> exn + string) \<Rightarrow>
   string \<Rightarrow> string \<Rightarrow> number \<Rightarrow> string list \<Rightarrow> outcome" where
  "find_jobs_job_hunt firecrawl_extract agent_run job_title location experience_years skills =
     except_Exception find_jobs_error_message
       (find_jobs_try_job_hunt firecrawl_extract agent_run job_title location experience_years
          skills)"

definition get_industry_trends_try_job_hunt ::
  "(extract_request \<Rightarrow> exn + pyval) \<Rightarrow> (string \<Rightarrow> exn + string) \<Rightarrow> string \<Rightarrow> outcome" where
  "get_industry_trends_try_job_hunt firecrawl_extract agent_run job_category =
     (let request = industry_trends_request job_category;
          no_data = \<lparr>result = Inr (no_trend_data_message job_category),
                     extract_calls = [request], run_calls = []\<rparr>
      in case firecrawl_extract request of
           Inl e \<Rightarrow> \<lparr>result = Inl e, extract_calls = [request], run_calls = []\<rparr>
         | Inr raw_response \<Rightarrow>
             (case raw_response of
                PDict kvs \<Rightarrow>
                  if truthy (case map_of kvs ''success'' of Some v \<Rightarrow> v | None \<Rightarrow> PNone)
                  then (case (case dict_item kvs ''data'' of
                                Inl e \<Rightarrow> Inl e
                              | Inr d \<Rightarrow> py_get d ''industry_trends'' (PList [])) of
                          Inl e \<Rightarrow> \<lparr>result = Inl e, extract_calls = [request], run_calls = []\<rparr>
                        | Inr industries \<Rightarrow>
                            if \<not> truthy industries
                            then \<lparr>result = Inr (no_trends_data_message job_category),
                                  extract_calls = [request], run_calls = []\<rparr>
                            else let analysis_prompt =
                                       trends_analysis_prompt industries job_category
                                 in \<lparr>result = agent_run analysis_prompt,
                                     extract_calls = [request], run_calls = [analysis_prompt]\<rparr>)
                  else no_data
              | _ \<Rightarrow> no_data))"

definition get_industry_trends_job_hunt ::
  "(extract_request \<Rightarrow> exn + pyval) \<Rightarrow> (string \<Rightarrow> exn + string) \<Rightarrow> string \<Rightarrow> outcome" where
  "get_industry_trends_job_hunt firecrawl_extract agent_run job_category =
     except_Exception get_industry_trends_error_message
       (get_industry_trends_try_job_hunt firecrawl_extract agent_run job_category)"

definition main_shows_error_job_hunt :: "string \<Rightarrow> bool" where
  \<comment> \<open>the test \<open>"An error occurred" in job_results\<close> of \<open>main\<close> in \<open>job-hunt.py\<close>\<close>
  "main_shows_error_job_hunt job_results = sublist ''An error occurred'' job_results"

section \<open>The declared schemas\<close>

text \<open>
  The pydantic classes of both files, as shape checks on decoded JSON: every field has
  \<open>default=None\<close>, so it may be absent, and a present field has the declared type. The
  types are read as written; the conversions of pydantic's lax mode are not part of them.
  The methods only send \<open>model_json_schema()\<close> of the two outer classes to the extraction
  service.
\<close>

definition is_str :: "pyval \<Rightarrow> bool" where
  "is_str v = (case v of PStr _ \<Rightarrow> True | _ \<Rightarrow> False)"

definition is_float :: "pyval \<Rightarrow> bool" where
  "is_float v = (case v of PNum _ \<Rightarrow> True | _ \<Rightarrow> False)"

definition is_str_list :: "pyval \<Rightarrow> bool" where
  "is_str_list v = (case v of PList xs \<Rightarrow> list_all is_str xs | _ \<Rightarrow> False)"

definition optional_field :: "(pyval \<Rightarrow> bool) \<Rightarrow> (string \<times> pyval) list \<Rightarrow> string \<Rightarrow> bool" where
  "optional_field has_type kvs name =
     (case map_of kvs name of None \<Rightarrow> True | Some v \<Rightarrow> has_type v)"

definition conforms_NestedModel1 :: "pyval \<Rightarrow> bool" where
  "conforms_NestedModel1 v =
     (case v of
        PDict kvs \<Rightarrow>
          optional_field is_str kvs ''region'' \<and> optional_field is_str kvs ''role'' \<and>
          optional_field is_str kvs ''job_title'' \<and> optional_field is_str kvs ''experience'' \<and>
          optional_field is_str kvs ''job_link''
      | _ \<Rightarrow> False)"

definition conforms_ExtractSchema :: "pyval \<Rightarrow> bool" where
  "conforms_ExtractSchema d =
     (case d of
        PDict kvs \<Rightarrow>
          (case map_of kvs ''job_postings'' of
             Some (PList xs) \<Rightarrow> list_all conforms_NestedModel1 xs
           | _ \<Rightarrow> False)
      | _ \<Rightarrow> False)"

definition conforms_IndustryTrend :: "pyval \<Rightarrow> bool" where
  "conforms_IndustryTrend v =
     (case v of
        PDict kvs \<Rightarrow>
          optional_field is_str kvs ''industry'' \<and> optional_field is_float kvs ''avg_salary'' \<and>
          optional_field is_float kvs ''growth_rate'' \<and>
          optional_field is_str kvs ''demand_level'' \<and>
          optional_field is_str_list kvs ''top_skills''
      | _ \<Rightarrow> False)"

definition conforms_IndustryTrendsSchema :: "pyval \<Rightarrow> bool" where
  "conforms_IndustryTrendsSchema d =
     (case d of
        PDict kvs \<Rightarrow>
          (case map_of kvs ''industry_trends'' of
             Some (PList xs) \<Rightarrow> list_all conforms_IndustryTrend xs
           | _ \<Rightarrow> False)
      | _ \<Rightarrow> False)"

section \<open>Words of prohibition\<close>

text \<open>A coarse test for an instruction that forbids something.\<close>

definition prohibition_words :: "string list" where
  \<comment> \<open>the words by which a prompt could forbid something, in the three usual casings\<close>
  "prohibition_words =
     [''not'', ''NOT'', ''Not'', ''never'', ''NEVER'', ''Never'', ''only'', ''ONLY'', ''Only'',
      ''n'' @ [CHR 0x27] @ ''t'', ''N'' @ [CHR 0x27] @ ''T'']"

definition has_prohibition :: "string \<Rightarrow> bool" where
  "has_prohibition p = list_ex (\<lambda>w. sublist w p) prohibition_words"

section \<open>Scenarios\<close>

text \<open>Concrete responses and services, used to run the methods.\<close>

definition failed_response :: firecrawl_response where
  "failed_response =
     \<lparr>success = False, data = PDict [(''job_postings'', PList [PDict [(''role'', PStr ''dev'')]])],
      status = ''failed'', expiresAt = ''''\<rparr>"

definition empty_response :: firecrawl_response where
  \<comment> \<open>\<open>{success: true, data: {}}\<close>\<close>
  "empty_response = \<lparr>success = True, data = PDict [], status = ''completed'', expiresAt = ''''\<rparr>"

definition partial_posting :: pyval where
  \<comment> \<open>a posting with only one of the five fields\<close>
  "partial_posting = PDict [(''role'', PStr ''dev'')]"

definition postings_response :: firecrawl_response where
  "postings_response =
     \<lparr>success = True, data = PDict [(''job_postings'', PList [partial_posting])],
      status = ''completed'', expiresAt = ''''\<rparr>"

definition trend_record :: pyval where
  "trend_record =
     PDict [(''industry'', PStr ''SEO''), (''avg_salary'', PNum (PyInt 50000)),
            (''demand_level'', PStr ''High'')]"

definition trends_response :: firecrawl_response where
  "trends_response =
     \<lparr>success = True, data = PDict [(''industry_trends'', PList [trend_record])],
      status = ''completed'', expiresAt = ''''\<rparr>"

definition failed_response_job_hunt :: pyval where
  "failed_response_job_hunt =
     PDict [(''success'', PBool False),
            (''data'', PDict [(''job_postings'', PList [PDict [(''role'', PStr ''dev'')]])])]"

definition postings_response_job_hunt :: pyval where
  "postings_response_job_hunt =
     PDict [(''success'', PBool True), (''data'', PDict [(''job_postings'', PList [partial_posting])])]"

definition unvalidated_response :: firecrawl_response where
  \<comment> \<open>a success whose \<open>job_postings\<close> holds a number where a posting should be\<close>
  "unvalidated_response =
     \<lparr>success = True, data = PDict [(''job_postings'', PList [PNum (PyInt 42)])],
      status = ''completed'', expiresAt = ''''\<rparr>"

definition unvalidated_trends_response :: firecrawl_response where
  \<comment> \<open>a success whose \<open>industry_trends\<close> is a text, not a list of trends\<close>
  "unvalidated_trends_response =
     \<lparr>success = True, data = PDict [(''industry_trends'', PStr ''n/a'')],
      status = ''completed'', expiresAt = ''''\<rparr>"

definition report_agent :: "string \<Rightarrow> exn + string" where
  "report_agent p = Inr ''report''"

definition failed_service :: "extract_request \<Rightarrow> exn + firecrawl_response" where
  "failed_service request = Inr failed_response"

definition empty_service :: "extract_request \<Rightarrow> exn + firecrawl_response" where
  "empty_service request = Inr empty_response"

definition postings_service :: "extract_request \<Rightarrow> exn + firecrawl_response" where
  "postings_service request = Inr postings_response"

definition trends_service :: "extract_request \<Rightarrow> exn + firecrawl_response" where
  "trends_service request = Inr trends_response"

definition unvalidated_service :: "extract_request \<Rightarrow> exn + firecrawl_response" where
  "unvalidated_service request = Inr unvalidated_response"

definition unvalidated_trends_service :: "extract_request \<Rightarrow> exn + firecrawl_response" where
  "unvalidated_trends_service request = Inr unvalidated_trends_response"

definition timeout_service :: "extract_request \<Rightarrow> exn + firecrawl_response" where
  \<comment> \<open>an extraction call that raises a transport error\<close>
  "timeout_service request = Inl (Exception ''Connection timed out'')"

definition failing_agent :: "string \<Rightarrow> exn + string" where
  \<comment> \<open>a synthesis call that raises\<close>
  "failing_agent p = Inl (Exception ''Invalid API key'')"

definition apologising_agent :: "string \<Rightarrow> exn + string" where
  \<comment> \<open>a synthesis call whose content has the words \<open>main\<close> looks for\<close>
  "apologising_agent p = Inr ''An error occurred while writing the report.''"

definition interrupted_service :: "extract_request \<Rightarrow> exn + firecrawl_response" where
  \<comment> \<open>an extraction call during which \<open>KeyboardInterrupt\<close> is raised\<close>
  "interrupted_service request = Inl (OtherBaseException [])"

definition interrupted_agent :: "string \<Rightarrow> exn + string" where
  \<comment> \<open>a synthesis call during which \<open>KeyboardInterrupt\<close> is raised\<close>
  "interrupted_agent p = Inl (OtherBaseException [])"

definition trends_response_job_hunt :: pyval where
  "trends_response_job_hunt =
     PDict [(''success'', PBool True),
            (''data'', PDict [(''industry_trends'', PList [trend_record])])]"

definition trends_service_job_hunt :: "extract_request \<Rightarrow> exn + pyval" where
  "trends_service_job_hunt request = Inr trends_response_job_hunt"

definition postings_service_job_hunt :: "extract_request \<Rightarrow> exn + pyval" where
  "postings_service_job_hunt request = Inr postings_response_job_hunt"

definition timeout_service_job_hunt :: "extract_request \<Rightarrow> exn + pyval" where
  "timeout_service_job_hunt request = Inl (Exception ''Connection timed out'')"

definition occurred_service_job_hunt :: "extract_request \<Rightarrow> exn + pyval" where
  \<comment> \<open>an extraction call whose exception text has the words \<open>main\<close> looks for\<close>
  "occurred_service_job_hunt request = Inl (Exception ''An error occurred: 503'')"

section \<open>Facts about strings\<close>

lemma sublist_concat_member: "x \<in> set xss \<Longrightarrow> sublist x (concat xss)"
proof -
  assume "x \<in> set xss"
  then obtain as bs where "xss = as @ x # bs" by (auto simp: in_set_conv_decomp)
  then have "concat xss = concat as @ x @ concat bs" by simp
  then show ?thesis by (metis sublist_appendI)
qed

lemma sublist_of_concat_member:
  "sublist n l \<Longrightarrow> l \<in> set xss \<Longrightarrow> sublist n (concat xss)"
  using sublist_concat_member sublist_order.order_trans by blast

lemma sublist_join_member: "x \<in> set xs \<Longrightarrow> sublist x (join sep xs)"
proof (induction sep xs rule: join.induct)
  case (1 sep)
  then show ?case by simp
next
  case (2 sep y)
  then show ?case by simp
next
  case (3 sep y z zs)
  show ?case
  proof (cases "x = y")
    case True
    then show ?thesis by simp
  next
    case False
    with 3 have "sublist x (join sep (z # zs))" by simp
    then have "sublist x ((y @ sep) @ join sep (z # zs))"
      by (metis sublist_append)
    then show ?thesis by simp
  qed
qed

text \<open>A character that the needle lacks cuts the search in two.\<close>

lemma sublist_split_char:
  assumes "c \<notin> set n"
  shows "sublist n (xs @ c # ys) \<longleftrightarrow> sublist n xs \<or> sublist n ys"
proof
  assume "sublist n (xs @ c # ys)"
  then obtain ps ss where eq: "xs @ c # ys = ps @ n @ ss" by (auto simp: sublist_def)
  then consider (left) us where "xs = ps @ us" "us @ c # ys = n @ ss"
    | (right) us where "xs @ us = ps" "c # ys = us @ n @ ss"
    by (auto simp: append_eq_append_conv2)
  then show "sublist n xs \<or> sublist n ys"
  proof cases
    case left
    from left(2) consider (inside) vs where "us = n @ vs"
      | (across) vs where "us @ vs = n" "c # ys = vs @ ss"
      by (auto simp: append_eq_append_conv2)
    then show ?thesis
    proof cases
      case inside
      with left(1) have "xs = ps @ n @ vs" by simp
      then show ?thesis by (auto simp: sublist_def)
    next
      case across
      show ?thesis
      proof (cases vs)
        case Nil
        with across left(1) have "xs = ps @ n @ []" by simp
        then show ?thesis unfolding sublist_def by blast
      next
        case (Cons v vs')
        with across have "c \<in> set n" by auto
        with assms show ?thesis by simp
      qed
    qed
  next
    case right
    show ?thesis
    proof (cases us)
      case Nil
      with right(2) assms have "n = []" by (cases n) auto
      then show ?thesis by simp
    next
      case (Cons u us')
      with right(2) have "ys = us' @ n @ ss" by simp
      then show ?thesis by (auto simp: sublist_def)
    qed
  qed
next
  assume "sublist n xs \<or> sublist n ys"
  then show "sublist n (xs @ c # ys)"
    by (metis append_Cons append_Nil sublist_append)
qed

section \<open>The paths through the methods\<close>

text \<open>One lemma for each way a call of the \<open>app.py\<close> methods can go.\<close>

lemma find_jobs_extract_raises:
  assumes "firecrawl_extract (job_search_request job_title location experience_years skills) = Inl e"
  shows "find_jobs firecrawl_extract agent_run job_title location experience_years skills =
           \<lparr>result = (if is_Exception e then Inr (find_jobs_error_message e) else Inl e),
            extract_calls = [job_search_request job_title location experience_years skills],
            run_calls = []\<rparr>"
  using assms by (simp add: find_jobs_def find_jobs_try_def except_Exception_def)

lemma find_jobs_process_raises:
  assumes "firecrawl_extract (job_search_request job_title location experience_years skills) =
             Inr raw_response"
    and "process_jobs_response raw_response = Inl e"
  shows "find_jobs firecrawl_extract agent_run job_title location experience_years skills =
           \<lparr>result = (if is_Exception e then Inr (find_jobs_error_message e) else Inl e),
            extract_calls = [job_search_request job_title location experience_years skills],
            run_calls = []\<rparr>"
  using assms by (simp add: find_jobs_def find_jobs_try_def except_Exception_def)

lemma find_jobs_falsy:
  assumes "firecrawl_extract (job_search_request job_title location experience_years skills) =
             Inr raw_response"
    and "process_jobs_response raw_response = Inr jobs"
    and "\<not> truthy jobs"
  shows "find_jobs firecrawl_extract agent_run job_title location experience_years skills =
           \<lparr>result = Inr no_job_listing_message,
            extract_calls = [job_search_request job_title location experience_years skills],
            run_calls = []\<rparr>"
  using assms by (simp add: find_jobs_def find_jobs_try_def except_Exception_def)

lemma find_jobs_truthy:
  assumes "firecrawl_extract (job_search_request job_title location experience_years skills) =
             Inr raw_response"
    and "process_jobs_response raw_response = Inr jobs"
    and "truthy jobs"
  shows "find_jobs firecrawl_extract agent_run job_title location experience_years skills =
           \<lparr>result =
              (case agent_run (job_analysis_prompt jobs job_title location experience_years
                                 (join '', '' skills)) of
                 Inl e \<Rightarrow> if is_Exception e then Inr (find_jobs_error_message e) else Inl e
               | Inr content \<Rightarrow> Inr content),
            extract_calls = [job_search_request job_title location experience_years skills],
            run_calls = [job_analysis_prompt jobs job_title location experience_years
                           (join '', '' skills)]\<rparr>"
  using assms
  by (simp add: find_jobs_def find_jobs_try_def except_Exception_def split: sum.splits)

lemma get_industry_trends_extract_raises:
  assumes "firecrawl_extract (industry_trends_request job_category) = Inl e"
  shows "get_industry_trends firecrawl_extract agent_run job_category =
           \<lparr>result = (if is_Exception e then Inr (get_industry_trends_error_message e) else Inl e),
            extract_calls = [industry_trends_request job_category], run_calls = []\<rparr>"
  using assms
  by (simp add: get_industry_trends_def get_industry_trends_try_def except_Exception_def)

lemma get_industry_trends_get_raises:
  assumes "firecrawl_extract (industry_trends_request job_category) = Inr raw_response"
    and "success raw_response"
    and "py_get (data raw_response) ''industry_trends'' (PList []) = Inl e"
  shows "get_industry_trends firecrawl_extract agent_run job_category =
           \<lparr>result = (if is_Exception e then Inr (get_industry_trends_error_message e) else Inl e),
            extract_calls = [industry_trends_request job_category], run_calls = []\<rparr>"
  using assms
  by (simp add: get_industry_trends_def get_industry_trends_try_def except_Exception_def)

lemma get_industry_trends_no_success:
  assumes "firecrawl_extract (industry_trends_request job_category) = Inr raw_response"
    and "\<not> success raw_response"
  shows "get_industry_trends firecrawl_extract agent_run job_category =
           \<lparr>result = Inr (no_trend_data_message job_category),
            extract_calls = [industry_trends_request job_category], run_calls = []\<rparr>"
  using assms
  by (simp add: get_industry_trends_def get_industry_trends_try_def except_Exception_def)

lemma get_industry_trends_falsy:
  assumes "firecrawl_extract (industry_trends_request job_category) = Inr raw_response"
    and "success raw_response"
    and "py_get (data raw_response) ''industry_trends'' (PList []) = Inr industries"
    and "\<not> truthy industries"
  shows "get_industry_trends firecrawl_extract agent_run job_category =
           \<lparr>result = Inr (no_trends_data_message job_category),
            extract_calls = [industry_trends_request job_category], run_calls = []\<rparr>"
  using assms
  by (simp add: get_industry_trends_def get_industry_trends_try_def except_Exception_def)

lemma get_industry_trends_truthy:
  assumes "firecrawl_extract (industry_trends_request job_category) = Inr raw_response"
    and "success raw_response"
    and "py_get (data raw_response) ''industry_trends'' (PList []) = Inr industries"
    and "truthy industries"
  shows "get_industry_trends firecrawl_extract agent_run job_category =
           \<lparr>result =
              (case agent_run (trends_analysis_prompt industries job_category) of
                 Inl e \<Rightarrow> if is_Exception e then Inr (get_industry_trends_error_message e) else Inl e
               | Inr content \<Rightarrow> Inr content),
            extract_calls = [industry_trends_request job_category],
            run_calls = [trends_analysis_prompt industries job_category]\<rparr>"
  using assms
  by (simp add: get_industry_trends_def get_industry_trends_try_def except_Exception_def
           split: sum.splits)

text \<open>The same for \<open>find_jobs\<close> of \<open>job-hunt.py\<close>.\<close>

lemma find_jobs_job_hunt_extract_raises:
  assumes "firecrawl_extract (job_search_request job_title location experience_years skills) = Inl e"
  shows "find_jobs_job_hunt firecrawl_extract agent_run job_title location experience_years skills =
           \<lparr>result = (if is_Exception e then Inr (find_jobs_error_message e) else Inl e),
            extract_calls = [job_search_request job_title location experience_years skills],
            run_calls = []\<rparr>"
  using assms
  by (simp add: find_jobs_job_hunt_def find_jobs_try_job_hunt_def except_Exception_def)

lemma find_jobs_job_hunt_process_raises:
  assumes "firecrawl_extract (job_search_request job_title location experience_years skills) =
             Inr raw_response"
    and "process_jobs_response_job_hunt raw_response = Inl e"
  shows "find_jobs_job_hunt firecrawl_extract agent_run job_title location experience_years skills =
           \<lparr>result = (if is_Exception e then Inr (find_jobs_error_message e) else Inl e),
            extract_calls = [job_search_request job_title location experience_years skills],
            run_calls = []\<rparr>"
  using assms
  by (simp add: find_jobs_job_hunt_def find_jobs_try_job_hunt_def except_Exception_def)

lemma find_jobs_job_hunt_truthy:
  assumes "firecrawl_extract (job_search_request job_title location experience_years skills) =
             Inr raw_response"
    and "process_jobs_response_job_hunt raw_response = Inr jobs"
    and "truthy jobs"
  shows "find_jobs_job_hunt firecrawl_extract agent_run job_title location experience_years skills =
           \<lparr>result =
              (case agent_run (job_analysis_prompt jobs job_title location experience_years
                                 (join '', '' skills)) of
                 Inl e \<Rightarrow> if is_Exception e then Inr (find_jobs_error_message e) else Inl e
               | Inr content \<Rightarrow> Inr content),
            extract_calls = [job_search_request job_title location experience_years skills],
            run_calls = [job_analysis_prompt jobs job_title location experience_years
                           (join '', '' skills)]\<rparr>"
  using assms
  by (simp add: find_jobs_job_hunt_def find_jobs_try_job_hunt_def except_Exception_def
           split: sum.splits)

text \<open>What the methods raise by themselves is an instance of \<open>Exception\<close>.\<close>

lemma py_get_raises:
  assumes "py_get d key dflt = Inl e"
  shows "is_Exception e"
  using assms by (cases d) (auto simp: py_get_def)

lemma dict_item_raises:
  assumes "dict_item kvs key = Inl e"
  shows "is_Exception e"
  using assms by (cases "map_of kvs key") (auto simp: dict_item_def)

lemma process_jobs_response_raises:
  assumes "process_jobs_response raw_response = Inl e"
  shows "is_Exception e"
  using assms py_get_raises
  by (cases "success raw_response") (auto simp: process_jobs_response_def)

text \<open>The trend lookup of \<open>job-hunt.py\<close> with a truthy list of trends.\<close>

lemma get_industry_trends_job_hunt_truthy:
  assumes "firecrawl_extract (industry_trends_request job_category) = Inr (PDict entries)"
    and "map_of entries ''success'' = Some flag" and "truthy flag"
    and "map_of entries ''data'' = Some (PDict kvs)"
    and "map_of kvs ''industry_trends'' = Some industries" and "truthy industries"
  shows "get_industry_trends_job_hunt firecrawl_extract agent_run job_category =
           \<lparr>result =
              (case agent_run (trends_analysis_prompt industries job_category) of
                 Inl e \<Rightarrow> if is_Exception e then Inr (get_industry_trends_error_message e) else Inl e
               | Inr content \<Rightarrow> Inr content),
            extract_calls = [industry_trends_request job_category],
            run_calls = [trends_analysis_prompt industries job_category]\<rparr>"
  using assms
  by (simp add: get_industry_trends_job_hunt_def get_industry_trends_try_job_hunt_def
        except_Exception_def dict_item_def py_get_def split: sum.splits)

text \<open>A call of \<open>agent.run\<close> is only made with a truthy value taken from the payload.\<close>

lemma process_jobs_response_truthy:
  assumes "process_jobs_response raw_response = Inr jobs" and "truthy jobs"
  shows "success raw_response \<and>
         (\<exists>entries. data raw_response = PDict entries \<and> map_of entries ''job_postings'' = Some jobs)"
proof (cases "success raw_response")
  case False
  with assms show ?thesis by (auto simp: process_jobs_response_def)
next
  case True
  with assms(1) have g: "py_get (data raw_response) ''job_postings'' (PList []) = Inr jobs"
    by (simp add: process_jobs_response_def)
  then obtain entries where d: "data raw_response = PDict entries"
    by (cases "data raw_response") (simp_all add: py_get_def)
  with g assms(2) have "map_of entries ''job_postings'' = Some jobs"
    by (cases "map_of entries ''job_postings''") (auto simp: py_get_def)
  with True d show ?thesis by simp
qed

lemma py_get_truthy:
  assumes "py_get d key (PList []) = Inr v" and "truthy v"
  shows "\<exists>entries. d = PDict entries \<and> map_of entries key = Some v"
proof -
  from assms(1) obtain entries where d: "d = PDict entries"
    by (cases d) (simp_all add: py_get_def)
  with assms have "map_of entries key = Some v"
    by (cases "map_of entries key") (auto simp: py_get_def)
  with d show ?thesis by simp
qed

lemma find_jobs_run_calls:
  assumes "run_calls (find_jobs firecrawl_extract agent_run job_title location experience_years
                        skills) \<noteq> []"
  shows "\<exists>raw_response jobs.
           firecrawl_extract (job_search_request job_title location experience_years skills) =
             Inr raw_response \<and>
           process_jobs_response raw_response = Inr jobs \<and> truthy jobs"
proof (cases "firecrawl_extract (job_search_request job_title location experience_years skills)")
  case (Inl e)
  with assms show ?thesis by (simp add: find_jobs_extract_raises)
next
  case (Inr raw_response)
  show ?thesis
  proof (cases "process_jobs_response raw_response")
    case (Inl e)
    with Inr assms show ?thesis by (simp add: find_jobs_process_raises)
  next
    case jobs: (Inr jobs)
    show ?thesis
    proof (cases "truthy jobs")
      case True
      with Inr jobs show ?thesis by simp
    next
      case False
      with Inr jobs assms show ?thesis by (simp add: find_jobs_falsy)
    qed
  qed
qed

lemma get_industry_trends_run_calls:
  assumes "run_calls (get_industry_trends firecrawl_extract agent_run job_category) \<noteq> []"
  shows "\<exists>raw_response industries.
           firecrawl_extract (industry_trends_request job_category) = Inr raw_response \<and>
           success raw_response \<and>
           py_get (data raw_response) ''industry_trends'' (PList []) = Inr industries \<and>
           truthy industries"
proof (cases "firecrawl_extract (industry_trends_request job_category)")
  case (Inl e)
  with assms show ?thesis by (simp add: get_industry_trends_extract_raises)
next
  case (Inr raw_response)
  show ?thesis
  proof (cases "success raw_response")
    case False
    with Inr assms show ?thesis by (simp add: get_industry_trends_no_success)
  next
    case True
    show ?thesis
    proof (cases "py_get (data raw_response) ''industry_trends'' (PList [])")
      case (Inl e)
      with Inr True assms show ?thesis by (simp add: get_industry_trends_get_raises)
    next
      case industries: (Inr industries)
      show ?thesis
      proof (cases "truthy industries")
        case True
        with Inr \<open>success raw_response\<close> industries show ?thesis by simp
      next
        case False
        with Inr True industries assms show ?thesis by (simp add: get_industry_trends_falsy)
      qed
    qed
  qed
qed

text \<open>What the two synthesis prompts contain, for any records.\<close>

lemma job_analysis_prompt_has_jobs:
  "sublist (py_str jobs)
     (job_analysis_prompt jobs job_title location experience_years skills_string)"
  unfolding job_analysis_prompt_def by (rule sublist_concat_member) simp

lemma job_analysis_prompt_has_instruction:
  "sublist ''DO NOT CREATE new Job Listings''
     (job_analysis_prompt jobs job_title location experience_years skills_string)"
proof -
  have "sublist ''DO NOT CREATE new Job Listings''
          (''                2.'' @ ''DO NOT CREATE new Job Listings'' @ ''\<newline>'')"
    by (rule sublist_appendI)
  then have "sublist ''DO NOT CREATE new Job Listings''
               ''                2.DO NOT CREATE new Job Listings\<newline>''"
    by simp
  then show ?thesis
    unfolding job_analysis_prompt_def by (rule sublist_of_concat_member) simp
qed

lemma trends_analysis_prompt_has_industries:
  "sublist (py_str industries) (trends_analysis_prompt industries job_category)"
  unfolding trends_analysis_prompt_def by (rule sublist_concat_member) simp

lemma py_str_list_has_element:
  assumes "r \<in> set rs"
  shows "sublist (py_repr r) (py_str (PList rs))"
proof -
  from assms have "sublist (py_repr r) (join '', '' (map py_repr rs))"
    by (intro sublist_join_member) simp
  also have "sublist \<dots> (''['' @ join '', '' (map py_repr rs) @ '']'')"
    by (rule sublist_appendI)
  finally show ?thesis by (simp add: py_str_def)
qed

text \<open>The error strings of the two \<open>except\<close> branches.\<close>

lemma find_jobs_error_message_has_error:
  "sublist ''error'' (find_jobs_error_message e)"
proof -
  have "sublist ''error'' (''An '' @ ''error'' @ '' occured while searching for jobs: '')"
    by (rule sublist_appendI)
  then have "sublist ''error'' ''An error occured while searching for jobs: ''" by simp
  then show ?thesis
    unfolding find_jobs_error_message_def by (rule sublist_of_concat_member) simp
qed

lemma find_jobs_error_message_has_description:
  "sublist (description e) (find_jobs_error_message e)"
  unfolding find_jobs_error_message_def by (rule sublist_concat_member) simp

lemma get_industry_trends_error_message_has_error:
  "sublist ''error'' (get_industry_trends_error_message e)"
proof -
  have "sublist ''error'' (''An '' @ ''error'' @ '' occurerd while fetching industry trends: '')"
    by (rule sublist_appendI)
  then have "sublist ''error'' ''An error occurerd while fetching industry trends: ''" by simp
  then show ?thesis
    unfolding get_industry_trends_error_message_def by (rule sublist_of_concat_member) simp
qed

lemma get_industry_trends_error_message_has_description:
  "sublist (description e) (get_industry_trends_error_message e)"
  unfolding get_industry_trends_error_message_def by (rule sublist_concat_member) simp

lemma find_jobs_error_message_not_no_jobs:
  "find_jobs_error_message e \<noteq> no_job_listing_message"
  by (simp add: find_jobs_error_message_def no_job_listing_message_def)

lemma find_jobs_extract_calls:
  "extract_calls (find_jobs firecrawl_extract agent_run job_title location experience_years skills)
     = [job_search_request job_title location experience_years skills]"
proof (cases "firecrawl_extract (job_search_request job_title location experience_years skills)")
  case (Inl e)
  then show ?thesis by (simp add: find_jobs_extract_raises)
next
  case (Inr raw_response)
  show ?thesis
  proof (cases "process_jobs_response raw_response")
    case (Inl e)
    with Inr show ?thesis by (simp add: find_jobs_process_raises)
  next
    case jobs: (Inr jobs)
    with Inr show ?thesis
      by (cases "truthy jobs") (simp_all add: find_jobs_truthy find_jobs_falsy)
  qed
qed

lemma get_industry_trends_extract_calls:
  "extract_calls (get_industry_trends firecrawl_extract agent_run job_category) =
     [industry_trends_request job_category]"
proof (cases "firecrawl_extract (industry_trends_request job_category)")
  case (Inl e)
  then show ?thesis by (simp add: get_industry_trends_extract_raises)
next
  case (Inr raw_response)
  show ?thesis
  proof (cases "success raw_response")
    case False
    with Inr show ?thesis by (simp add: get_industry_trends_no_success)
  next
    case True
    show ?thesis
    proof (cases "py_get (data raw_response) ''industry_trends'' (PList [])")
      case (Inl e)
      with Inr True show ?thesis by (simp add: get_industry_trends_get_raises)
    next
      case industries: (Inr industries)
      with Inr True show ?thesis
        by (cases "truthy industries")
           (simp_all add: get_industry_trends_truthy get_industry_trends_falsy)
    qed
  qed
qed

text \<open>Where a needle can lie in a text put together as an error string is.\<close>

lemma sublist_in_message:
  assumes "c1 \<notin> set n" and "c2 \<notin> set n" and "\<not> sublist n p0" and "\<not> sublist n t"
    and "\<not> prefix n (c # d)"
  shows "sublist n (p0 @ c1 # c # d @ c2 # t) \<longleftrightarrow> sublist n d"
proof -
  have "sublist n (p0 @ c1 # c # d @ c2 # t) \<longleftrightarrow> sublist n ((c # d) @ c2 # t)"
    using sublist_split_char [OF assms(1), of p0 "c # d @ c2 # t"] assms(3) by simp
  also have "\<dots> \<longleftrightarrow> sublist n (c # d)"
    using sublist_split_char [OF assms(2), of "c # d" t] assms(4) by simp
  also have "\<dots> \<longleftrightarrow> sublist n d"
    using assms(5) by (simp add: sublist_Cons_right)
  finally show ?thesis .
qed

text \<open>The words \<open>main\<close> of \<open>job-hunt.py\<close> looks for, inside the two error strings.\<close>

lemma find_jobs_error_message_occurred:
  "sublist ''An error occurred'' (find_jobs_error_message e) \<longleftrightarrow>
   sublist ''An error occurred'' (description e)"
proof -
  have "find_jobs_error_message e =
          ''An error occured while searching for jobs'' @ CHR '':'' # CHR '' '' # description e @
          CHR ''\<newline>'' #
          ''\<newline>Please try again with different search parameters or check if the job sites are supported by Firecrawl.''"
    by (simp add: find_jobs_error_message_def)
  moreover have "sublist ''An error occurred''
          (''An error occured while searching for jobs'' @ CHR '':'' # CHR '' '' # description e @
           CHR ''\<newline>'' #
           ''\<newline>Please try again with different search parameters or check if the job sites are supported by Firecrawl.'')
        \<longleftrightarrow> sublist ''An error occurred'' (description e)"
    by (rule sublist_in_message) (simp_all add: sublist_Cons_right)
  ultimately show ?thesis by (simp only:)
qed

lemma get_industry_trends_error_message_occurred:
  "sublist ''An error occurred'' (get_industry_trends_error_message e) \<longleftrightarrow>
   sublist ''An error occurred'' (description e)"
proof -
  have "get_industry_trends_error_message e =
          ''An error occurerd while fetching industry trends'' @ CHR '':'' # CHR '' '' #
          description e @ CHR ''\<newline>'' #
          ''\<newline>Please try again with a different industry category or check if the sites are supported by Firecrawl. ''"
    by (simp add: get_industry_trends_error_message_def)
  moreover have "sublist ''An error occurred''
          (''An error occurerd while fetching industry trends'' @ CHR '':'' # CHR '' '' #
           description e @ CHR ''\<newline>'' #
           ''\<newline>Please try again with a different industry category or check if the sites are supported by Firecrawl. '')
        \<longleftrightarrow> sublist ''An error occurred'' (description e)"
    by (rule sublist_in_message) (simp_all add: sublist_Cons_right)
  ultimately show ?thesis by (simp only:)
qed

text \<open>
  With services that raise instances of \<open>Exception\<close> only, every path of the \<open>app.py\<close>
  methods ends in a returned string.
\<close>

lemma find_jobs_returns:
  assumes from_extract: "\<And>e. firecrawl_extract
                         (job_search_request job_title location experience_years skills) = Inl e
                       \<Longrightarrow> is_Exception e"
    and from_run: "\<And>p e. agent_run p = Inl e \<Longrightarrow> is_Exception e"
  shows "\<exists>s. result (find_jobs firecrawl_extract agent_run job_title location experience_years
                      skills) = Inr s"
proof (cases "firecrawl_extract (job_search_request job_title location experience_years skills)")
  case (Inl e)
  with from_extract [of e] show ?thesis by (simp add: find_jobs_extract_raises)
next
  case (Inr raw_response)
  show ?thesis
  proof (cases "process_jobs_response raw_response")
    case (Inl e)
    then have "is_Exception e" by (rule process_jobs_response_raises)
    with Inr Inl show ?thesis by (simp add: find_jobs_process_raises)
  next
    case jobs: (Inr jobs)
    show ?thesis
    proof (cases "truthy jobs")
      case False
      with Inr jobs show ?thesis by (simp add: find_jobs_falsy)
    next
      case True
      show ?thesis
      proof (cases "agent_run (job_analysis_prompt jobs job_title location experience_years
                                 (join '', '' skills))")
        case (Inl e)
        with from_run have "is_Exception e" by blast
        with Inr jobs True Inl show ?thesis by (simp add: find_jobs_truthy)
      next
        case content: (Inr content)
        with Inr jobs True show ?thesis by (simp add: find_jobs_truthy)
      qed
    qed
  qed
qed

lemma get_industry_trends_returns:
  assumes from_extract: "\<And>e. firecrawl_extract (industry_trends_request job_category) = Inl e
                       \<Longrightarrow> is_Exception e"
    and from_run: "\<And>p e. agent_run p = Inl e \<Longrightarrow> is_Exception e"
  shows "\<exists>s. result (get_industry_trends firecrawl_extract agent_run job_category) = Inr s"
proof (cases "firecrawl_extract (industry_trends_request job_category)")
  case (Inl e)
  with from_extract [of e] show ?thesis by (simp add: get_industry_trends_extract_raises)
next
  case (Inr raw_response)
  show ?thesis
  proof (cases "success raw_response")
    case False
    with Inr show ?thesis by (simp add: get_industry_trends_no_success)
  next
    case True
    show ?thesis
    proof (cases "py_get (data raw_response) ''industry_trends'' (PList [])")
      case (Inl e)
      then have "is_Exception e" by (rule py_get_raises)
      with Inr True Inl show ?thesis by (simp add: get_industry_trends_get_raises)
    next
      case industries: (Inr industries)
      show ?thesis
      proof (cases "truthy industries")
        case False
        with Inr True industries show ?thesis by (simp add: get_industry_trends_falsy)
      next
        case truthy: True
        show ?thesis
        proof (cases "agent_run (trends_analysis_prompt industries job_category)")
          case (Inl e)
          with from_run have "is_Exception e" by blast
          with Inr True industries truthy Inl show ?thesis
            by (simp add: get_industry_trends_truthy)
        next
          case content: (Inr content)
          with Inr True industries truthy show ?thesis
            by (simp add: get_industry_trends_truthy)
        qed
      qed
    qed
  qed
qed

text \<open>What a raise of the synthesis call becomes.\<close>

lemma find_jobs_run_raises:
  assumes "run_calls (find_jobs firecrawl_extract agent_run job_title location experience_years
                        skills) = [p]"
    and "agent_run p = Inl e"
  shows "result (find_jobs firecrawl_extract agent_run job_title location experience_years skills)
           = (if is_Exception e then Inr (find_jobs_error_message e) else Inl e)"
proof -
  from assms(1) obtain raw_response jobs where
    r: "firecrawl_extract (job_search_request job_title location experience_years skills) =
          Inr raw_response"
      "process_jobs_response raw_response = Inr jobs" "truthy jobs"
    using find_jobs_run_calls
            [of firecrawl_extract agent_run job_title location experience_years skills]
    by auto
  note t = find_jobs_truthy
             [of firecrawl_extract job_title location experience_years skills raw_response jobs
                 agent_run, OF r]
  from t assms(1) have "p = job_analysis_prompt jobs job_title location experience_years
                              (join '', '' skills)"
    by simp
  with t assms(2) show ?thesis by simp
qed

lemma get_industry_trends_run_raises:
  assumes "run_calls (get_industry_trends firecrawl_extract agent_run job_category) = [p]"
    and "agent_run p = Inl e"
  shows "result (get_industry_trends firecrawl_extract agent_run job_category)
           = (if is_Exception e then Inr (get_industry_trends_error_message e) else Inl e)"
proof -
  from assms(1) obtain raw_response industries where
    r: "firecrawl_extract (industry_trends_request job_category) = Inr raw_response"
      "success raw_response"
      "py_get (data raw_response) ''industry_trends'' (PList []) = Inr industries"
      "truthy industries"
    using get_industry_trends_run_calls [of firecrawl_extract agent_run job_category]
    by auto
  note t = get_industry_trends_truthy
             [of firecrawl_extract job_category raw_response industries agent_run, OF r]
  from t assms(1) have "p = trends_analysis_prompt industries job_category"
    by simp
  with t assms(2) show ?thesis by simp
qed

section \<open>The claims\<close>

subsection \<open>C1: one synthesis call, with every record\<close>

text \<open>
  C1, as amended. For every invocation of \<open>find_jobs\<close> and of \<open>get_industry_trends\<close> in
  which the record sequence taken from the response is non-empty, \<open>agent.run\<close> is invoked
  exactly once, and its prompt contains the text of that sequence, hence of every record
  in it. The prompt of \<open>find_jobs\<close> also contains the instruction
  \<open>DO NOT CREATE new Job Listings\<close>. (Nothing is said of such an instruction in the prompt
  of \<open>get_industry_trends\<close>.)
\<close>

theorem synthesis_called_once_with_records:
  "(firecrawl_extract (job_search_request job_title location experience_years skills) =
      Inr raw_response \<and>
    process_jobs_response raw_response = Inr jobs \<and> truthy jobs \<longrightarrow>
      run_calls (find_jobs firecrawl_extract agent_run job_title location experience_years skills) =
        [job_analysis_prompt jobs job_title location experience_years (join '', '' skills)] \<and>
      sublist (py_str jobs)
        (job_analysis_prompt jobs job_title location experience_years (join '', '' skills)) \<and>
      (\<forall>rs r. jobs = PList rs \<and> r \<in> set rs \<longrightarrow>
         sublist (py_repr r)
           (job_analysis_prompt jobs job_title location experience_years (join '', '' skills))) \<and>
      sublist ''DO NOT CREATE new Job Listings''
        (job_analysis_prompt jobs job_title location experience_years (join '', '' skills))) \<and>
   (trends_extract (industry_trends_request job_category) = Inr trends_raw \<and>
    success trends_raw \<and>
    py_get (data trends_raw) ''industry_trends'' (PList []) = Inr industries \<and>
    truthy industries \<longrightarrow>
      run_calls (get_industry_trends trends_extract agent_run job_category) =
        [trends_analysis_prompt industries job_category] \<and>
      sublist (py_str industries) (trends_analysis_prompt industries job_category) \<and>
      (\<forall>rs r. industries = PList rs \<and> r \<in> set rs \<longrightarrow>
         sublist (py_repr r) (trends_analysis_prompt industries job_category)))"
proof (intro conjI impI allI)
  assume "firecrawl_extract (job_search_request job_title location experience_years skills) =
      Inr raw_response \<and>
    process_jobs_response raw_response = Inr jobs \<and> truthy jobs"
  then show "run_calls (find_jobs firecrawl_extract agent_run job_title location
                          experience_years skills) =
        [job_analysis_prompt jobs job_title location experience_years (join '', '' skills)]"
    using find_jobs_truthy
            [of firecrawl_extract job_title location experience_years skills raw_response jobs
                agent_run]
    by simp
next
  show "sublist (py_str jobs)
        (job_analysis_prompt jobs job_title location experience_years (join '', '' skills))"
    by (rule job_analysis_prompt_has_jobs)
next
  fix rs r
  assume "jobs = PList rs \<and> r \<in> set rs"
  then have "sublist (py_repr r) (py_str jobs)"
    using py_str_list_has_element by blast
  then show "sublist (py_repr r)
           (job_analysis_prompt jobs job_title location experience_years (join '', '' skills))"
    using job_analysis_prompt_has_jobs sublist_order.order_trans by blast
next
  show "sublist ''DO NOT CREATE new Job Listings''
        (job_analysis_prompt jobs job_title location experience_years (join '', '' skills))"
    by (rule job_analysis_prompt_has_instruction)
next
  assume "trends_extract (industry_trends_request job_category) = Inr trends_raw \<and>
    success trends_raw \<and>
    py_get (data trends_raw) ''industry_trends'' (PList []) = Inr industries \<and>
    truthy industries"
  then show "run_calls (get_industry_trends trends_extract agent_run job_category) =
        [trends_analysis_prompt industries job_category]"
    using get_industry_trends_truthy
            [of trends_extract job_category trends_raw industries agent_run]
    by simp
next
  show "sublist (py_str industries) (trends_analysis_prompt industries job_category)"
    by (rule trends_analysis_prompt_has_industries)
next
  fix rs r
  assume "industries = PList rs \<and> r \<in> set rs"
  then have "sublist (py_repr r) (py_str industries)"
    using py_str_list_has_element by blast
  then show "sublist (py_repr r) (trends_analysis_prompt industries job_category)"
    using trends_analysis_prompt_has_industries sublist_order.order_trans by blast
qed

theorem synthesis_called_once_with_records_witness:
  "length (run_calls (find_jobs postings_service report_agent ''Data Scientist'' ''New York''
                        (PyInt 3) [''Python'', ''SQL''])) = 1 \<and>
   sublist (py_repr partial_posting)
     (job_analysis_prompt (PList [partial_posting]) ''Data Scientist'' ''New York'' (PyInt 3)
        ''Python, SQL'') \<and>
   length (run_calls (get_industry_trends trends_service report_agent ''Marketing'')) = 1 \<and>
   sublist (py_repr trend_record) (trends_analysis_prompt (PList [trend_record]) ''Marketing'')"
proof -
  have a: "postings_service (job_search_request ''Data Scientist'' ''New York'' (PyInt 3)
                               [''Python'', ''SQL'']) = Inr postings_response"
    "process_jobs_response postings_response = Inr (PList [partial_posting])"
    "truthy (PList [partial_posting])"
    by (simp_all add: postings_service_def postings_response_def process_jobs_response_def
          py_get_def)
  have c: "trends_service (industry_trends_request ''Marketing'') = Inr trends_response"
    "success trends_response"
    "py_get (data trends_response) ''industry_trends'' (PList []) = Inr (PList [trend_record])"
    "truthy (PList [trend_record])"
    by (simp_all add: trends_service_def trends_response_def py_get_def)
  note t = synthesis_called_once_with_records
         [of postings_service "''Data Scientist''" "''New York''" "PyInt 3" "[''Python'', ''SQL'']"
             postings_response "PList [partial_posting]" report_agent trends_service
             "''Marketing''" trends_response "PList [trend_record]"]
  from t [THEN conjunct1] a
  have j: "run_calls (find_jobs postings_service report_agent ''Data Scientist'' ''New York''
                        (PyInt 3) [''Python'', ''SQL'']) =
             [job_analysis_prompt (PList [partial_posting]) ''Data Scientist'' ''New York''
                (PyInt 3) ''Python, SQL'']"
    and jr: "\<forall>rs r. PList [partial_posting] = PList rs \<and> r \<in> set rs \<longrightarrow>
         sublist (py_repr r)
           (job_analysis_prompt (PList [partial_posting]) ''Data Scientist'' ''New York''
              (PyInt 3) (join '', '' [''Python'', ''SQL'']))"
    by simp_all
  from t [THEN conjunct2] c
  have i: "run_calls (get_industry_trends trends_service report_agent ''Marketing'') =
             [trends_analysis_prompt (PList [trend_record]) ''Marketing'']"
    and ir: "\<forall>rs r. PList [trend_record] = PList rs \<and> r \<in> set rs \<longrightarrow>
         sublist (py_repr r) (trends_analysis_prompt (PList [trend_record]) ''Marketing'')"
    by simp_all
  from jr have jr': "sublist (py_repr partial_posting)
     (job_analysis_prompt (PList [partial_posting]) ''Data Scientist'' ''New York'' (PyInt 3)
        ''Python, SQL'')"
    by simp
  from ir have ir': "sublist (py_repr trend_record)
     (trends_analysis_prompt (PList [trend_record]) ''Marketing'')"
    by simp
  from j i jr' ir' show ?thesis by simp
qed

text \<open>
  C1 as stated fails for \<open>get_industry_trends\<close>: with one trend record the single prompt
  it sends has neither the instruction of \<open>find_jobs\<close> nor any word of prohibition.
\<close>

theorem trends_prompt_has_no_prohibition:
  "run_calls (get_industry_trends trends_service report_agent ''Marketing'') =
     [trends_analysis_prompt (PList [trend_record]) ''Marketing''] \<and>
   \<not> sublist ''DO NOT CREATE'' (trends_analysis_prompt (PList [trend_record]) ''Marketing'') \<and>
   \<not> has_prohibition (trends_analysis_prompt (PList [trend_record]) ''Marketing'')"
proof -
  have r: "run_calls (get_industry_trends trends_service report_agent ''Marketing'') =
     [trends_analysis_prompt (PList [trend_record]) ''Marketing'']"
    by (simp add: get_industry_trends_def get_industry_trends_try_def except_Exception_def
          trends_service_def trends_response_def py_get_def report_agent_def)
  define p where "p = trends_analysis_prompt (PList [trend_record]) ''Marketing''"
  have "\<not> sublist w p" if "w \<in> set prohibition_words" for w
  proof -
    have "\<not> sublist ''not'' p" "\<not> sublist ''NOT'' p" "\<not> sublist ''Not'' p"
      "\<not> sublist ''never'' p" "\<not> sublist ''NEVER'' p" "\<not> sublist ''Never'' p"
      "\<not> sublist ''only'' p" "\<not> sublist ''ONLY'' p" "\<not> sublist ''Only'' p"
      "\<not> sublist (''n'' @ [CHR 0x27] @ ''t'') p" "\<not> sublist (''N'' @ [CHR 0x27] @ ''T'') p"
      unfolding p_def
      by (simp_all add: trends_analysis_prompt_def
          sublist_Cons_right py_str_def trend_record_def repr_str_def repr_char_def
          str_number_def str_int_def str_nat.simps digit_char_def Let_def)
    with that show ?thesis by (auto simp: prohibition_words_def)
  qed
  then have n: "\<not> has_prohibition (trends_analysis_prompt (PList [trend_record]) ''Marketing'')"
    by (simp add: has_prohibition_def list_ex_iff p_def)
  have d: "\<not> sublist ''DO NOT CREATE''
             (trends_analysis_prompt (PList [trend_record]) ''Marketing'')"
    by (simp add: trends_analysis_prompt_def
          sublist_Cons_right py_str_def trend_record_def repr_str_def repr_char_def
          str_number_def str_int_def str_nat.simps digit_char_def Let_def)
  from r n d show ?thesis by simp
qed

subsection \<open>C2: what reaches the synthesis prompt\<close>

text \<open>
  C2, as amended. In every execution of \<open>find_jobs\<close> and \<open>get_industry_trends\<close> the value
  embedded into the synthesis prompt is the value stored under \<open>job_postings\<close>
  (\<open>industry_trends\<close>) in the payload of a response whose success flag is true, and it is
  embedded as received: any truthy value found there goes into the prompt, and the methods
  make no check of it against the schema, which is only named in the extraction request.
\<close>

theorem synthesis_prompt_embeds_payload_as_received:
  "(firecrawl_extract (job_search_request job_title location experience_years skills) =
      Inr raw_response \<and>
    success raw_response \<and> data raw_response = PDict kvs \<and>
    map_of kvs ''job_postings'' = Some jobs \<and> truthy jobs \<longrightarrow>
      run_calls (find_jobs firecrawl_extract agent_run job_title location experience_years skills) =
        [job_analysis_prompt jobs job_title location experience_years (join '', '' skills)]) \<and>
   (run_calls (find_jobs firecrawl_extract agent_run job_title location experience_years skills)
      \<noteq> [] \<longrightarrow>
      (\<exists>r entries v.
         firecrawl_extract (job_search_request job_title location experience_years skills) = Inr r \<and>
         success r \<and> data r = PDict entries \<and> map_of entries ''job_postings'' = Some v \<and>
         run_calls (find_jobs firecrawl_extract agent_run job_title location experience_years
                      skills) =
           [job_analysis_prompt v job_title location experience_years (join '', '' skills)])) \<and>
   (trends_extract (industry_trends_request job_category) = Inr trends_raw \<and>
    success trends_raw \<and> data trends_raw = PDict trend_kvs \<and>
    map_of trend_kvs ''industry_trends'' = Some industries \<and> truthy industries \<longrightarrow>
      run_calls (get_industry_trends trends_extract agent_run job_category) =
        [trends_analysis_prompt industries job_category]) \<and>
   (run_calls (get_industry_trends trends_extract agent_run job_category) \<noteq> [] \<longrightarrow>
      (\<exists>r entries v.
         trends_extract (industry_trends_request job_category) = Inr r \<and>
         success r \<and> data r = PDict entries \<and> map_of entries ''industry_trends'' = Some v \<and>
         run_calls (get_industry_trends trends_extract agent_run job_category) =
           [trends_analysis_prompt v job_category])) \<and>
   req_schema (job_search_request job_title location experience_years skills) = ExtractSchema \<and>
   req_schema (industry_trends_request job_category) = IndustryTrendsSchema"
proof (intro conjI impI)
  assume a: "firecrawl_extract (job_search_request job_title location experience_years skills) =
      Inr raw_response \<and>
    success raw_response \<and> data raw_response = PDict kvs \<and>
    map_of kvs ''job_postings'' = Some jobs \<and> truthy jobs"
  then have "process_jobs_response raw_response = Inr jobs"
    by (simp add: process_jobs_response_def py_get_def)
  with a show "run_calls (find_jobs firecrawl_extract agent_run job_title location
                            experience_years skills) =
        [job_analysis_prompt jobs job_title location experience_years (join '', '' skills)]"
    using find_jobs_truthy
            [of firecrawl_extract job_title location experience_years skills raw_response jobs
                agent_run]
    by simp
next
  assume "run_calls (find_jobs firecrawl_extract agent_run job_title location experience_years
                       skills) \<noteq> []"
  then obtain r v where
    r: "firecrawl_extract (job_search_request job_title location experience_years skills) = Inr r"
      "process_jobs_response r = Inr v" "truthy v"
    using find_jobs_run_calls by blast
  from r(2,3) obtain entries where
    e: "success r" "data r = PDict entries" "map_of entries ''job_postings'' = Some v"
    using process_jobs_response_truthy by blast
  from r have "run_calls (find_jobs firecrawl_extract agent_run job_title location
                            experience_years skills) =
           [job_analysis_prompt v job_title location experience_years (join '', '' skills)]"
    using find_jobs_truthy
            [of firecrawl_extract job_title location experience_years skills r v agent_run]
    by simp
  with r(1) e show "\<exists>r entries v.
         firecrawl_extract (job_search_request job_title location experience_years skills) = Inr r \<and>
         success r \<and> data r = PDict entries \<and> map_of entries ''job_postings'' = Some v \<and>
         run_calls (find_jobs firecrawl_extract agent_run job_title location experience_years
                      skills) =
           [job_analysis_prompt v job_title location experience_years (join '', '' skills)]"
    by blast
next
  assume a: "trends_extract (industry_trends_request job_category) = Inr trends_raw \<and>
    success trends_raw \<and> data trends_raw = PDict trend_kvs \<and>
    map_of trend_kvs ''industry_trends'' = Some industries \<and> truthy industries"
  then have "py_get (data trends_raw) ''industry_trends'' (PList []) = Inr industries"
    by (simp add: py_get_def)
  with a show "run_calls (get_industry_trends trends_extract agent_run job_category) =
        [trends_analysis_prompt industries job_category]"
    using get_industry_trends_truthy
            [of trends_extract job_category trends_raw industries agent_run]
    by simp
next
  assume "run_calls (get_industry_trends trends_extract agent_run job_category) \<noteq> []"
  then obtain r v where
    r: "trends_extract (industry_trends_request job_category) = Inr r" "success r"
      "py_get (data r) ''industry_trends'' (PList []) = Inr v" "truthy v"
    using get_industry_trends_run_calls by blast
  from r(3,4) obtain entries where
    e: "data r = PDict entries" "map_of entries ''industry_trends'' = Some v"
    using py_get_truthy by blast
  from r have "run_calls (get_industry_trends trends_extract agent_run job_category) =
           [trends_analysis_prompt v job_category]"
    using get_industry_trends_truthy [of trends_extract job_category r v agent_run]
    by simp
  with r(1,2) e show "\<exists>r entries v.
         trends_extract (industry_trends_request job_category) = Inr r \<and>
         success r \<and> data r = PDict entries \<and> map_of entries ''industry_trends'' = Some v \<and>
         run_calls (get_industry_trends trends_extract agent_run job_category) =
           [trends_analysis_prompt v job_category]"
    by blast
next
  show "req_schema (job_search_request job_title location experience_years skills) = ExtractSchema"
    by (simp add: job_search_request_def)
next
  show "req_schema (industry_trends_request job_category) = IndustryTrendsSchema"
    by (simp add: industry_trends_request_def)
qed

theorem synthesis_prompt_embeds_payload_as_received_witness:
  "run_calls (find_jobs postings_service report_agent ''Data Scientist'' ''New York'' (PyInt 3)
                [''Python'', ''SQL'']) =
     [job_analysis_prompt (PList [partial_posting]) ''Data Scientist'' ''New York'' (PyInt 3)
        ''Python, SQL''] \<and>
   run_calls (get_industry_trends trends_service report_agent ''Marketing'') =
     [trends_analysis_prompt (PList [trend_record]) ''Marketing'']"
proof -
  have a: "postings_service (job_search_request ''Data Scientist'' ''New York'' (PyInt 3)
                               [''Python'', ''SQL'']) = Inr postings_response"
    "success postings_response"
    "data postings_response = PDict [(''job_postings'', PList [partial_posting])]"
    "map_of [(''job_postings'', PList [partial_posting])] ''job_postings'' =
       Some (PList [partial_posting])"
    "truthy (PList [partial_posting])"
    by (simp_all add: postings_service_def postings_response_def)
  have c: "trends_service (industry_trends_request ''Marketing'') = Inr trends_response"
    "success trends_response"
    "data trends_response = PDict [(''industry_trends'', PList [trend_record])]"
    "map_of [(''industry_trends'', PList [trend_record])] ''industry_trends'' =
       Some (PList [trend_record])"
    "truthy (PList [trend_record])"
    by (simp_all add: trends_service_def trends_response_def)
  note t = synthesis_prompt_embeds_payload_as_received
         [of postings_service "''Data Scientist''" "''New York''" "PyInt 3" "[''Python'', ''SQL'']"
             postings_response "[(''job_postings'', PList [partial_posting])]"
             "PList [partial_posting]" report_agent trends_service "''Marketing''" trends_response
             "[(''industry_trends'', PList [trend_record])]" "PList [trend_record]"]
  from t [THEN conjunct1] a
  have j: "run_calls (find_jobs postings_service report_agent ''Data Scientist'' ''New York''
                        (PyInt 3) [''Python'', ''SQL'']) =
     [job_analysis_prompt (PList [partial_posting]) ''Data Scientist'' ''New York'' (PyInt 3)
        ''Python, SQL'']"
    by simp
  from t [THEN conjunct2, THEN conjunct2, THEN conjunct1] c
  have i: "run_calls (get_industry_trends trends_service report_agent ''Marketing'') =
     [trends_analysis_prompt (PList [trend_record]) ''Marketing'']"
    by simp
  from j i show ?thesis by (rule conjI)
qed

text \<open>
  C2 as stated fails: nothing is validated. A successful response whose \<open>job_postings\<close>
  is the list \<open>[42]\<close> does not conform to \<open>ExtractSchema\<close>, and \<open>find_jobs\<close> sends a prompt
  built from that list to \<open>agent.run\<close>; likewise \<open>get_industry_trends\<close> with a text where
  the list of trends should be.
\<close>

theorem unvalidated_payload_reaches_synthesis:
  "\<not> conforms_ExtractSchema (data unvalidated_response) \<and>
   run_calls (find_jobs unvalidated_service report_agent ''Data Scientist'' ''New York'' (PyInt 3)
                [''Python'', ''SQL'']) =
     [job_analysis_prompt (PList [PNum (PyInt 42)]) ''Data Scientist'' ''New York'' (PyInt 3)
        ''Python, SQL''] \<and>
   py_str (PList [PNum (PyInt 42)]) = ''[42]'' \<and>
   \<not> conforms_IndustryTrendsSchema (data unvalidated_trends_response) \<and>
   run_calls (get_industry_trends unvalidated_trends_service report_agent ''Marketing'') =
     [trends_analysis_prompt (PStr ''n/a'') ''Marketing'']"
proof -
  have a: "\<not> conforms_ExtractSchema (data unvalidated_response)"
    by (simp add: conforms_ExtractSchema_def unvalidated_response_def conforms_NestedModel1_def)
  have b: "run_calls (find_jobs unvalidated_service report_agent ''Data Scientist'' ''New York''
                        (PyInt 3) [''Python'', ''SQL'']) =
     [job_analysis_prompt (PList [PNum (PyInt 42)]) ''Data Scientist'' ''New York'' (PyInt 3)
        ''Python, SQL'']"
    by (simp add: find_jobs_def find_jobs_try_def except_Exception_def unvalidated_service_def
          unvalidated_response_def process_jobs_response_def py_get_def report_agent_def)
  have c: "py_str (PList [PNum (PyInt 42)]) = ''[42]''"
    by (simp add: py_str_def str_number_def str_int_def str_nat.simps digit_char_def)
  have d: "\<not> conforms_IndustryTrendsSchema (data unvalidated_trends_response)"
    by (simp add: conforms_IndustryTrendsSchema_def unvalidated_trends_response_def)
  have e: "run_calls (get_industry_trends unvalidated_trends_service report_agent ''Marketing'') =
     [trends_analysis_prompt (PStr ''n/a'') ''Marketing'']"
    by (simp add: get_industry_trends_def get_industry_trends_try_def except_Exception_def
          unvalidated_trends_service_def unvalidated_trends_response_def py_get_def
          report_agent_def)
  from a b c d e show ?thesis by simp
qed

subsection \<open>C3: an extraction call that raises\<close>

text \<open>
  C3, as amended. For every invocation of \<open>find_jobs\<close> in which the extraction call raises
  an instance of \<open>Exception\<close>, the exception is caught by the \<open>except\<close> clause of the
  method: \<open>find_jobs\<close> returns the error string built from the exception's description,
  which is not the no-jobs message; the response is never processed into records and
  \<open>agent.run\<close> is not called.
\<close>

theorem extraction_failure_gives_error_string:
  "firecrawl_extract (job_search_request job_title location experience_years skills) = Inl e \<and>
   is_Exception e \<longrightarrow>
     result (find_jobs firecrawl_extract agent_run job_title location experience_years skills) =
       Inr (find_jobs_error_message e) \<and>
     sublist (description e) (find_jobs_error_message e) \<and>
     find_jobs_error_message e \<noteq> no_job_listing_message \<and>
     run_calls (find_jobs firecrawl_extract agent_run job_title location experience_years skills) =
       []"
proof
  assume "firecrawl_extract (job_search_request job_title location experience_years skills) =
            Inl e \<and> is_Exception e"
  then have "find_jobs firecrawl_extract agent_run job_title location experience_years skills =
           \<lparr>result = Inr (find_jobs_error_message e),
            extract_calls = [job_search_request job_title location experience_years skills],
            run_calls = []\<rparr>"
    using find_jobs_extract_raises
            [of firecrawl_extract job_title location experience_years skills e agent_run]
    by simp
  then show "result (find_jobs firecrawl_extract agent_run job_title location experience_years
                       skills) = Inr (find_jobs_error_message e) \<and>
     sublist (description e) (find_jobs_error_message e) \<and>
     find_jobs_error_message e \<noteq> no_job_listing_message \<and>
     run_calls (find_jobs firecrawl_extract agent_run job_title location experience_years skills) =
       []"
    by (simp add: find_jobs_error_message_has_description find_jobs_error_message_not_no_jobs)
qed

theorem extraction_failure_gives_error_string_witness:
  "result (find_jobs timeout_service report_agent ''Data Scientist'' ''New York'' (PyInt 3)
             [''Python'', ''SQL'']) =
     Inr (find_jobs_error_message (Exception ''Connection timed out'')) \<and>
   run_calls (find_jobs timeout_service report_agent ''Data Scientist'' ''New York'' (PyInt 3)
                [''Python'', ''SQL'']) = []"
proof -
  have a: "timeout_service (job_search_request ''Data Scientist'' ''New York'' (PyInt 3)
                              [''Python'', ''SQL'']) = Inl (Exception ''Connection timed out'')"
    by (simp add: timeout_service_def)
  from extraction_failure_gives_error_string
         [of timeout_service "''Data Scientist''" "''New York''" "PyInt 3" "[''Python'', ''SQL'']"
             "Exception ''Connection timed out''" report_agent]
       a
  show ?thesis by simp
qed

text \<open>
  C3 as stated fails: when the extraction call raises a transport error, \<open>find_jobs\<close>
  does not go on with zero records to the no-jobs message. It returns the error string.
\<close>

theorem transport_error_is_not_empty_result:
  "result (find_jobs timeout_service report_agent ''Data Scientist'' ''New York'' (PyInt 3)
             [''Python'', ''SQL'']) =
     Inr (''An error occured while searching for jobs: Connection timed out\<newline>\<newline>'' @
          ''Please try again with different search parameters or check if the job sites are supported by Firecrawl.'') \<and>
   result (find_jobs timeout_service report_agent ''Data Scientist'' ''New York'' (PyInt 3)
             [''Python'', ''SQL'']) \<noteq> Inr no_job_listing_message"
proof -
  have "find_jobs timeout_service report_agent ''Data Scientist'' ''New York'' (PyInt 3)
          [''Python'', ''SQL''] =
        \<lparr>result = Inr (find_jobs_error_message (Exception ''Connection timed out'')),
         extract_calls = [job_search_request ''Data Scientist'' ''New York'' (PyInt 3)
                            [''Python'', ''SQL'']],
         run_calls = []\<rparr>"
    using find_jobs_extract_raises
            [of timeout_service "''Data Scientist''" "''New York''" "PyInt 3"
                "[''Python'', ''SQL'']" "Exception ''Connection timed out''" report_agent]
    by (simp add: timeout_service_def)
  then show ?thesis
    by (simp add: find_jobs_error_message_def no_job_listing_message_def)
qed

subsection \<open>C4: when the methods never raise\<close>

text \<open>
  C4, as amended. For every input and every behaviour of the two remote services in which
  whatever the extraction call or the synthesis call raises is an instance of
  \<open>Exception\<close>, \<open>find_jobs\<close> and \<open>get_industry_trends\<close> never raise: every such exception is
  caught and converted into a returned string that contains \<open>error\<close> and the exception's
  description. A raise of either call that is not an instance of \<open>Exception\<close> is not
  caught: it leaves the method.
\<close>

theorem remote_exceptions_become_strings:
  "((\<forall>request x. firecrawl_extract request = Inl x \<longrightarrow> is_Exception x) \<and>
    (\<forall>q x. agent_run q = Inl x \<longrightarrow> is_Exception x) \<longrightarrow>
      (\<exists>s. result (find_jobs firecrawl_extract agent_run job_title location experience_years
                      skills) = Inr s) \<and>
      (\<exists>s. result (get_industry_trends firecrawl_extract agent_run job_category) = Inr s)) \<and>
   (firecrawl_extract (job_search_request job_title location experience_years skills) = Inl e \<longrightarrow>
      result (find_jobs firecrawl_extract agent_run job_title location experience_years skills) =
        (if is_Exception e then Inr (find_jobs_error_message e) else Inl e)) \<and>
   (run_calls (find_jobs firecrawl_extract agent_run job_title location experience_years skills) =
      [p] \<and> agent_run p = Inl e \<longrightarrow>
      result (find_jobs firecrawl_extract agent_run job_title location experience_years skills) =
        (if is_Exception e then Inr (find_jobs_error_message e) else Inl e)) \<and>
   (firecrawl_extract (industry_trends_request job_category) = Inl e \<longrightarrow>
      result (get_industry_trends firecrawl_extract agent_run job_category) =
        (if is_Exception e then Inr (get_industry_trends_error_message e) else Inl e)) \<and>
   (run_calls (get_industry_trends firecrawl_extract agent_run job_category) = [p] \<and>
      agent_run p = Inl e \<longrightarrow>
      result (get_industry_trends firecrawl_extract agent_run job_category) =
        (if is_Exception e then Inr (get_industry_trends_error_message e) else Inl e)) \<and>
   sublist ''error'' (find_jobs_error_message e) \<and>
   sublist (description e) (find_jobs_error_message e) \<and>
   sublist ''error'' (get_industry_trends_error_message e) \<and>
   sublist (description e) (get_industry_trends_error_message e)"
proof (intro conjI impI)
  assume h: "(\<forall>request x. firecrawl_extract request = Inl x \<longrightarrow> is_Exception x) \<and>
             (\<forall>q x. agent_run q = Inl x \<longrightarrow> is_Exception x)"
  from h show "\<exists>s. result (find_jobs firecrawl_extract agent_run job_title location
                              experience_years skills) = Inr s"
    by (intro find_jobs_returns) blast+
  from h show "\<exists>s. result (get_industry_trends firecrawl_extract agent_run job_category) = Inr s"
    by (intro get_industry_trends_returns) blast+
next
  assume "firecrawl_extract (job_search_request job_title location experience_years skills) =
            Inl e"
  then show "result (find_jobs firecrawl_extract agent_run job_title location experience_years
                       skills) =
               (if is_Exception e then Inr (find_jobs_error_message e) else Inl e)"
    by (simp add: find_jobs_extract_raises)
next
  assume "run_calls (find_jobs firecrawl_extract agent_run job_title location experience_years
                       skills) = [p] \<and> agent_run p = Inl e"
  then show "result (find_jobs firecrawl_extract agent_run job_title location experience_years
                       skills) =
               (if is_Exception e then Inr (find_jobs_error_message e) else Inl e)"
    using find_jobs_run_raises by blast
next
  assume "firecrawl_extract (industry_trends_request job_category) = Inl e"
  then show "result (get_industry_trends firecrawl_extract agent_run job_category) =
               (if is_Exception e then Inr (get_industry_trends_error_message e) else Inl e)"
    by (simp add: get_industry_trends_extract_raises)
next
  assume "run_calls (get_industry_trends firecrawl_extract agent_run job_category) = [p] \<and>
            agent_run p = Inl e"
  then show "result (get_industry_trends firecrawl_extract agent_run job_category) =
               (if is_Exception e then Inr (get_industry_trends_error_message e) else Inl e)"
    using get_industry_trends_run_raises by blast
next
  show "sublist ''error'' (find_jobs_error_message e)"
    by (rule find_jobs_error_message_has_error)
next
  show "sublist (description e) (find_jobs_error_message e)"
    by (rule find_jobs_error_message_has_description)
next
  show "sublist ''error'' (get_industry_trends_error_message e)"
    by (rule get_industry_trends_error_message_has_error)
next
  show "sublist (description e) (get_industry_trends_error_message e)"
    by (rule get_industry_trends_error_message_has_description)
qed

theorem remote_exceptions_become_strings_witness:
  "(\<exists>s. result (find_jobs timeout_service failing_agent ''Data Scientist'' ''New York'' (PyInt 3)
                  [''Python'', ''SQL'']) = Inr s) \<and>
   result (find_jobs timeout_service failing_agent ''Data Scientist'' ''New York'' (PyInt 3)
             [''Python'', ''SQL'']) =
     Inr (find_jobs_error_message (Exception ''Connection timed out'')) \<and>
   result (find_jobs postings_service failing_agent ''Data Scientist'' ''New York'' (PyInt 3)
             [''Python'', ''SQL'']) =
     Inr (find_jobs_error_message (Exception ''Invalid API key'')) \<and>
   result (get_industry_trends trends_service failing_agent ''Marketing'') =
     Inr (get_industry_trends_error_message (Exception ''Invalid API key''))"
proof -
  have h: "(\<forall>request x. timeout_service request = Inl x \<longrightarrow> is_Exception x) \<and>
           (\<forall>q x. failing_agent q = Inl x \<longrightarrow> is_Exception x)"
    by (auto simp: timeout_service_def failing_agent_def)
  have x: "timeout_service (job_search_request ''Data Scientist'' ''New York'' (PyInt 3)
                              [''Python'', ''SQL'']) = Inl (Exception ''Connection timed out'')"
    by (simp add: timeout_service_def)
  have j: "run_calls (find_jobs postings_service failing_agent ''Data Scientist'' ''New York''
                        (PyInt 3) [''Python'', ''SQL'']) =
             [job_analysis_prompt (PList [partial_posting]) ''Data Scientist'' ''New York''
                (PyInt 3) ''Python, SQL'']"
    by (simp add: find_jobs_def find_jobs_try_def except_Exception_def postings_service_def
          postings_response_def process_jobs_response_def py_get_def failing_agent_def)
  have i: "run_calls (get_industry_trends trends_service failing_agent ''Marketing'') =
             [trends_analysis_prompt (PList [trend_record]) ''Marketing'']"
    by (simp add: get_industry_trends_def get_industry_trends_try_def except_Exception_def
          trends_service_def trends_response_def py_get_def failing_agent_def)
  have f: "failing_agent (job_analysis_prompt (PList [partial_posting]) ''Data Scientist''
                            ''New York'' (PyInt 3) ''Python, SQL'') =
             Inl (Exception ''Invalid API key'')"
    "failing_agent (trends_analysis_prompt (PList [trend_record]) ''Marketing'') =
             Inl (Exception ''Invalid API key'')"
    by (simp_all add: failing_agent_def)
  note t = remote_exceptions_become_strings
             [where firecrawl_extract = timeout_service and agent_run = failing_agent
                and job_title = "''Data Scientist''" and location = "''New York''"
                and experience_years = "PyInt 3" and skills = "[''Python'', ''SQL'']"
                and job_category = "''Marketing''" and e = "Exception ''Connection timed out''"]
  note u = remote_exceptions_become_strings
             [where firecrawl_extract = postings_service and agent_run = failing_agent
                and job_title = "''Data Scientist''" and location = "''New York''"
                and experience_years = "PyInt 3" and skills = "[''Python'', ''SQL'']"
                and e = "Exception ''Invalid API key''"
                and p = "job_analysis_prompt (PList [partial_posting]) ''Data Scientist''
                           ''New York'' (PyInt 3) ''Python, SQL''"]
  note v = remote_exceptions_become_strings
             [where firecrawl_extract = trends_service and agent_run = failing_agent
                and job_category = "''Marketing''" and e = "Exception ''Invalid API key''"
                and p = "trends_analysis_prompt (PList [trend_record]) ''Marketing''"]
  from t [THEN conjunct1] h
  have 1: "\<exists>s. result (find_jobs timeout_service failing_agent ''Data Scientist'' ''New York''
                          (PyInt 3) [''Python'', ''SQL'']) = Inr s"
    by blast
  from t [THEN conjunct2, THEN conjunct1] x
  have 2: "result (find_jobs timeout_service failing_agent ''Data Scientist'' ''New York''
                     (PyInt 3) [''Python'', ''SQL'']) =
             Inr (find_jobs_error_message (Exception ''Connection timed out''))"
    by simp
  from u [THEN conjunct2, THEN conjunct2, THEN conjunct1] j f(1)
  have 3: "result (find_jobs postings_service failing_agent ''Data Scientist'' ''New York''
                     (PyInt 3) [''Python'', ''SQL'']) =
             Inr (find_jobs_error_message (Exception ''Invalid API key''))"
    by simp
  from v [THEN conjunct2, THEN conjunct2, THEN conjunct2, THEN conjunct2, THEN conjunct1] i f(2)
  have 4: "result (get_industry_trends trends_service failing_agent ''Marketing'') =
             Inr (get_industry_trends_error_message (Exception ''Invalid API key''))"
    by simp
  from 1 2 3 4 show ?thesis by blast
qed

text \<open>
  C4 as stated fails: a \<open>KeyboardInterrupt\<close> raised during the extraction call or during the
  synthesis call is no instance of \<open>Exception\<close>, so neither \<open>except\<close> clause catches it, and
  both methods raise it.
\<close>

theorem interrupt_leaves_the_method:
  "result (find_jobs interrupted_service report_agent ''Data Scientist'' ''New York'' (PyInt 3)
             [''Python'', ''SQL'']) = Inl (OtherBaseException []) \<and>
   result (find_jobs postings_service interrupted_agent ''Data Scientist'' ''New York'' (PyInt 3)
             [''Python'', ''SQL'']) = Inl (OtherBaseException []) \<and>
   result (get_industry_trends interrupted_service report_agent ''Marketing'') =
     Inl (OtherBaseException []) \<and>
   result (get_industry_trends trends_service interrupted_agent ''Marketing'') =
     Inl (OtherBaseException [])"
proof -
  have 1: "result (find_jobs interrupted_service report_agent ''Data Scientist'' ''New York''
                     (PyInt 3) [''Python'', ''SQL'']) = Inl (OtherBaseException [])"
    using find_jobs_extract_raises
            [of interrupted_service "''Data Scientist''" "''New York''" "PyInt 3"
                "[''Python'', ''SQL'']" "OtherBaseException []" report_agent]
    by (simp add: interrupted_service_def)
  have p: "process_jobs_response postings_response = Inr (PList [partial_posting])"
    by (simp add: process_jobs_response_def postings_response_def py_get_def)
  have 2: "result (find_jobs postings_service interrupted_agent ''Data Scientist'' ''New York''
                     (PyInt 3) [''Python'', ''SQL'']) = Inl (OtherBaseException [])"
    using find_jobs_truthy
            [of postings_service "''Data Scientist''" "''New York''" "PyInt 3"
                "[''Python'', ''SQL'']" postings_response "PList [partial_posting]"
                interrupted_agent]
          p
    by (simp add: postings_service_def interrupted_agent_def)
  have 3: "result (get_industry_trends interrupted_service report_agent ''Marketing'') =
             Inl (OtherBaseException [])"
    using get_industry_trends_extract_raises
            [of interrupted_service "''Marketing''" "OtherBaseException []" report_agent]
    by (simp add: interrupted_service_def)
  have 4: "result (get_industry_trends trends_service interrupted_agent ''Marketing'') =
             Inl (OtherBaseException [])"
    using get_industry_trends_truthy
            [of trends_service "''Marketing''" trends_response "PList [trend_record]"
                interrupted_agent]
    by (simp add: trends_service_def trends_response_def py_get_def interrupted_agent_def)
  from 1 2 3 4 show ?thesis by blast
qed

subsection \<open>C5: no records, no synthesis\<close>

text \<open>
  C5, as amended. For every invocation in which the record sequence is empty (including a
  successful extraction whose payload lacks the expected top-level key, such as
  \<open>success: true\<close> with \<open>data: {}\<close>), \<open>agent.run\<close> is never invoked; \<open>find_jobs\<close> returns the
  fixed no-jobs message, and \<open>get_industry_trends\<close> returns a no-trends message made from
  its \<open>job_category\<close>: one text when the success flag is false, another when the list is
  missing or empty.
\<close>

theorem empty_records_skip_synthesis:
  "(firecrawl_extract (job_search_request job_title location experience_years skills) =
      Inr raw_response \<and>
    process_jobs_response raw_response = Inr jobs \<and> \<not> truthy jobs \<longrightarrow>
      result (find_jobs firecrawl_extract agent_run job_title location experience_years skills) =
        Inr no_job_listing_message \<and>
      run_calls (find_jobs firecrawl_extract agent_run job_title location experience_years skills)
        = []) \<and>
   (firecrawl_extract (job_search_request job_title location experience_years skills) =
      Inr raw_response \<and>
    success raw_response \<and> data raw_response = PDict kvs \<and>
    map_of kvs ''job_postings'' = None \<longrightarrow>
      result (find_jobs firecrawl_extract agent_run job_title location experience_years skills) =
        Inr no_job_listing_message \<and>
      run_calls (find_jobs firecrawl_extract agent_run job_title location experience_years skills)
        = []) \<and>
   (trends_extract (industry_trends_request job_category) = Inr trends_raw \<and>
    \<not> success trends_raw \<longrightarrow>
      result (get_industry_trends trends_extract agent_run job_category) =
        Inr (no_trend_data_message job_category) \<and>
      run_calls (get_industry_trends trends_extract agent_run job_category) = []) \<and>
   (trends_extract (industry_trends_request job_category) = Inr trends_raw \<and>
    success trends_raw \<and>
    py_get (data trends_raw) ''industry_trends'' (PList []) = Inr industries \<and>
    \<not> truthy industries \<longrightarrow>
      result (get_industry_trends trends_extract agent_run job_category) =
        Inr (no_trends_data_message job_category) \<and>
      run_calls (get_industry_trends trends_extract agent_run job_category) = []) \<and>
   (trends_extract (industry_trends_request job_category) = Inr trends_raw \<and>
    success trends_raw \<and> data trends_raw = PDict trend_kvs \<and>
    map_of trend_kvs ''industry_trends'' = None \<longrightarrow>
      result (get_industry_trends trends_extract agent_run job_category) =
        Inr (no_trends_data_message job_category) \<and>
      run_calls (get_industry_trends trends_extract agent_run job_category) = [])"
proof -
  have jobs_case:
    "find_jobs firecrawl_extract agent_run job_title location experience_years skills =
       \<lparr>result = Inr no_job_listing_message,
        extract_calls = [job_search_request job_title location experience_years skills],
        run_calls = []\<rparr>"
    if "firecrawl_extract (job_search_request job_title location experience_years skills) =
          Inr raw_response"
      and "process_jobs_response raw_response = Inr v" and "\<not> truthy v" for v
    using that by (rule find_jobs_falsy)
  have trends_case:
    "get_industry_trends trends_extract agent_run job_category =
       \<lparr>result = Inr (no_trends_data_message job_category),
        extract_calls = [industry_trends_request job_category], run_calls = []\<rparr>"
    if "trends_extract (industry_trends_request job_category) = Inr trends_raw"
      and "success trends_raw"
      and "py_get (data trends_raw) ''industry_trends'' (PList []) = Inr v" and "\<not> truthy v"
    for v
    using that by (rule get_industry_trends_falsy)
  have a: "result (find_jobs firecrawl_extract agent_run job_title location experience_years
                     skills) = Inr no_job_listing_message \<and>
           run_calls (find_jobs firecrawl_extract agent_run job_title location experience_years
                        skills) = []"
    if "firecrawl_extract (job_search_request job_title location experience_years skills) =
          Inr raw_response \<and>
        process_jobs_response raw_response = Inr jobs \<and> \<not> truthy jobs"
    using jobs_case [of jobs] that by simp
  have b: "result (find_jobs firecrawl_extract agent_run job_title location experience_years
                     skills) = Inr no_job_listing_message \<and>
           run_calls (find_jobs firecrawl_extract agent_run job_title location experience_years
                        skills) = []"
    if h: "firecrawl_extract (job_search_request job_title location experience_years skills) =
          Inr raw_response \<and>
        success raw_response \<and> data raw_response = PDict kvs \<and>
        map_of kvs ''job_postings'' = None"
  proof -
    from h have "process_jobs_response raw_response = Inr (PList [])"
      by (simp add: process_jobs_response_def py_get_def)
    with jobs_case [of "PList []"] h show ?thesis by simp
  qed
  have c: "result (get_industry_trends trends_extract agent_run job_category) =
             Inr (no_trend_data_message job_category) \<and>
           run_calls (get_industry_trends trends_extract agent_run job_category) = []"
    if "trends_extract (industry_trends_request job_category) = Inr trends_raw \<and>
        \<not> success trends_raw"
    using get_industry_trends_no_success [of trends_extract job_category trends_raw agent_run]
      that
    by simp
  have d: "result (get_industry_trends trends_extract agent_run job_category) =
             Inr (no_trends_data_message job_category) \<and>
           run_calls (get_industry_trends trends_extract agent_run job_category) = []"
    if "trends_extract (industry_trends_request job_category) = Inr trends_raw \<and>
        success trends_raw \<and>
        py_get (data trends_raw) ''industry_trends'' (PList []) = Inr industries \<and>
        \<not> truthy industries"
    using trends_case [of industries] that by simp
  have e: "result (get_industry_trends trends_extract agent_run job_category) =
             Inr (no_trends_data_message job_category) \<and>
           run_calls (get_industry_trends trends_extract agent_run job_category) = []"
    if h: "trends_extract (industry_trends_request job_category) = Inr trends_raw \<and>
        success trends_raw \<and> data trends_raw = PDict trend_kvs \<and>
        map_of trend_kvs ''industry_trends'' = None"
  proof -
    from h have "py_get (data trends_raw) ''industry_trends'' (PList []) = Inr (PList [])"
      by (simp add: py_get_def)
    with trends_case [of "PList []"] h show ?thesis by simp
  qed
  from a b c d e show ?thesis by blast
qed

theorem empty_records_skip_synthesis_witness:
  "result (find_jobs empty_service report_agent ''Data Scientist'' ''New York'' (PyInt 3)
             [''Python'', ''SQL'']) = Inr no_job_listing_message \<and>
   run_calls (find_jobs empty_service report_agent ''Data Scientist'' ''New York'' (PyInt 3)
                [''Python'', ''SQL'']) = [] \<and>
   run_calls (get_industry_trends failed_service report_agent ''Marketing'') = [] \<and>
   run_calls (get_industry_trends empty_service report_agent ''Marketing'') = []"
proof -
  have a: "empty_service (job_search_request ''Data Scientist'' ''New York'' (PyInt 3)
                            [''Python'', ''SQL'']) = Inr empty_response"
    "success empty_response" "data empty_response = PDict []"
    "map_of ([] :: (string \<times> pyval) list) ''job_postings'' = None"
    by (simp_all add: empty_service_def empty_response_def)
  have f: "failed_service (industry_trends_request ''Marketing'') = Inr failed_response"
    "\<not> success failed_response"
    by (simp_all add: failed_service_def failed_response_def)
  have e: "empty_service (industry_trends_request ''Marketing'') = Inr empty_response"
    "map_of ([] :: (string \<times> pyval) list) ''industry_trends'' = None"
    by (simp_all add: empty_service_def)
  note t = empty_records_skip_synthesis
             [of empty_service "''Data Scientist''" "''New York''" "PyInt 3" "[''Python'', ''SQL'']"
                 empty_response _ report_agent "[]"]
  note u = empty_records_skip_synthesis
             [of _ _ _ _ _ _ _ report_agent _ failed_service "''Marketing''" failed_response]
  note v = empty_records_skip_synthesis
             [of _ _ _ _ _ _ _ report_agent _ empty_service "''Marketing''" empty_response _ "[]"]
  from t [THEN conjunct2, THEN conjunct1] a
  have 1: "result (find_jobs empty_service report_agent ''Data Scientist'' ''New York'' (PyInt 3)
             [''Python'', ''SQL'']) = Inr no_job_listing_message"
    "run_calls (find_jobs empty_service report_agent ''Data Scientist'' ''New York'' (PyInt 3)
                [''Python'', ''SQL'']) = []"
    by simp_all
  from u [THEN conjunct2, THEN conjunct2, THEN conjunct1] f
  have 2: "run_calls (get_industry_trends failed_service report_agent ''Marketing'') = []"
    by simp
  from v [THEN conjunct2, THEN conjunct2, THEN conjunct2, THEN conjunct2] e a(2,3)
  have 3: "run_calls (get_industry_trends empty_service report_agent ''Marketing'') = []"
    by simp
  from 1 2 3 show ?thesis by simp
qed

text \<open>
  C5 as stated fails for \<open>get_industry_trends\<close>: there is no one fixed message. Three
  calls with no records return three different strings.
\<close>

theorem no_single_trends_message:
  "result (get_industry_trends failed_service report_agent ''Marketing'') =
     Inr ''No industry trend data available for Marketing.Try different industry category.'' \<and>
   result (get_industry_trends empty_service report_agent ''Marketing'') =
     Inr ''No industry trends data available for Marketing.Try a different industry category.'' \<and>
   result (get_industry_trends empty_service report_agent ''Sales'') =
     Inr ''No industry trends data available for Sales.Try a different industry category.'' \<and>
   result (get_industry_trends failed_service report_agent ''Marketing'') \<noteq>
     result (get_industry_trends empty_service report_agent ''Marketing'') \<and>
   result (get_industry_trends empty_service report_agent ''Marketing'') \<noteq>
     result (get_industry_trends empty_service report_agent ''Sales'')"
proof -
  have 1: "result (get_industry_trends failed_service report_agent ''Marketing'') =
     Inr ''No industry trend data available for Marketing.Try different industry category.''"
    using get_industry_trends_no_success
            [of failed_service "''Marketing''" failed_response report_agent]
    by (simp add: failed_service_def failed_response_def no_trend_data_message_def)
  have 2: "result (get_industry_trends empty_service report_agent c) =
     Inr (no_trends_data_message c)" for c
    using get_industry_trends_falsy [of empty_service c empty_response "PList []" report_agent]
    by (simp add: empty_service_def empty_response_def py_get_def)
  from 1 2 [of "''Marketing''"] 2 [of "''Sales''"] show ?thesis
    by (simp add: no_trends_data_message_def)
qed

subsection \<open>C6: a false success flag gives no records\<close>

text \<open>
  C6. For every extraction result whose success flag is false, the processing of the raw
  response in \<open>find_jobs\<close> gives the empty list of jobs, whatever the payload holds. In
  \<open>app.py\<close> the flag is the attribute \<open>success\<close>; in \<open>job-hunt.py\<close> it is false when the
  response is not a dict, or has no truthy \<open>success\<close> entry.
\<close>

theorem failed_extraction_gives_no_records:
  "(\<not> success raw_response \<longrightarrow> process_jobs_response raw_response = Inr (PList [])) \<and>
   ((\<forall>kvs. raw \<noteq> PDict kvs) \<longrightarrow> process_jobs_response_job_hunt raw = Inr (PList [])) \<and>
   (\<not> truthy (case map_of kvs ''success'' of Some v \<Rightarrow> v | None \<Rightarrow> PNone) \<longrightarrow>
      process_jobs_response_job_hunt (PDict kvs) = Inr (PList []))"
proof (intro conjI impI)
  assume "\<not> success raw_response"
  then show "process_jobs_response raw_response = Inr (PList [])"
    by (simp add: process_jobs_response_def)
next
  assume "\<forall>kvs. raw \<noteq> PDict kvs"
  then show "process_jobs_response_job_hunt raw = Inr (PList [])"
    by (cases raw) (simp_all add: process_jobs_response_job_hunt_def)
next
  assume "\<not> truthy (case map_of kvs ''success'' of Some v \<Rightarrow> v | None \<Rightarrow> PNone)"
  then show "process_jobs_response_job_hunt (PDict kvs) = Inr (PList [])"
    by (simp add: process_jobs_response_job_hunt_def)
qed

theorem failed_extraction_gives_no_records_witness:
  "data failed_response = PDict [(''job_postings'', PList [PDict [(''role'', PStr ''dev'')]])] \<and>
   process_jobs_response failed_response = Inr (PList []) \<and>
   process_jobs_response_job_hunt (PStr ''Bad Gateway'') = Inr (PList []) \<and>
   process_jobs_response_job_hunt failed_response_job_hunt = Inr (PList [])"
proof -
  have a: "\<not> success failed_response"
    and d: "data failed_response = PDict [(''job_postings'', PList [PDict [(''role'', PStr ''dev'')]])]"
    by (simp_all add: failed_response_def)
  have b: "\<forall>kvs. PStr ''Bad Gateway'' \<noteq> PDict kvs" by simp
  have c: "\<not> truthy (case map_of [(''success'', PBool False),
            (''data'', PDict [(''job_postings'', PList [PDict [(''role'', PStr ''dev'')]])])]
            ''success'' of Some v \<Rightarrow> v | None \<Rightarrow> PNone)"
    by simp
  from failed_extraction_gives_no_records
         [of failed_response "PStr ''Bad Gateway''"
             "[(''success'', PBool False),
               (''data'', PDict [(''job_postings'', PList [PDict [(''role'', PStr ''dev'')]])])]"]
       a b c d
  show ?thesis by (simp add: failed_response_job_hunt_def)
qed

subsection \<open>C7: the target URLs\<close>

text \<open>
  C7, as amended. For all search criteria with non-empty \<open>job_title\<close> and \<open>location\<close>, the
  request of the job search has exactly 3 target URLs and that of the trend lookup exactly
  2. Each job search URL contains the lower-cased, hyphen-joined form of \<open>job_title\<close> and
  of \<open>location\<close>. The second trend URL contains the lower-cased, hyphen-joined form of
  \<open>job_category\<close>; the first contains \<open>job_category\<close> hyphen-joined with its case kept.
\<close>

theorem query_urls:
  "job_title \<noteq> [] \<and> location \<noteq> [] \<longrightarrow>
     extract_calls (find_jobs firecrawl_extract agent_run job_title location experience_years
                      skills) =
       [job_search_request job_title location experience_years skills] \<and>
     length (req_urls (job_search_request job_title location experience_years skills)) = 3 \<and>
     (\<forall>u \<in> set (req_urls (job_search_request job_title location experience_years skills)).
        sublist (replace_char CHR '' '' CHR ''-'' (lower job_title)) u \<and>
        sublist (replace_char CHR '' '' CHR ''-'' (lower location)) u) \<and>
     extract_calls (get_industry_trends trends_extract agent_run job_category) =
       [industry_trends_request job_category] \<and>
     length (req_urls (industry_trends_request job_category)) = 2 \<and>
     sublist (replace_char CHR '' '' CHR ''-'' job_category)
       (req_urls (industry_trends_request job_category) ! 0) \<and>
     sublist (replace_char CHR '' '' CHR ''-'' (lower job_category))
       (req_urls (industry_trends_request job_category) ! 1)"
proof (intro impI conjI ballI)
  show "extract_calls (find_jobs firecrawl_extract agent_run job_title location experience_years
                         skills) =
          [job_search_request job_title location experience_years skills]"
    by (rule find_jobs_extract_calls)
next
  show "length (req_urls (job_search_request job_title location experience_years skills)) = 3"
    by (simp add: job_search_request_def Let_def job_search_urls_def)
next
  fix u
  assume "u \<in> set (req_urls (job_search_request job_title location experience_years skills))"
  then consider
      "u = ''https://www.naukri.com/'' @ format_for_url job_title @ ''-jobs-in-'' @
             format_for_url location"
    | "u = ''https://www.indeed.com/jobs?q='' @ format_for_url job_title @ ''&l='' @
             format_for_url location"
    | "u = ''https://www.monster.com/jobs/search/?q='' @ format_for_url job_title @
             ''&where='' @ format_for_url location"
    by (auto simp: job_search_request_def Let_def job_search_urls_def)
  then have "sublist (format_for_url job_title) u \<and> sublist (format_for_url location) u"
  proof cases
    case 1
    have a: "sublist (format_for_url job_title)
               (''https://www.naukri.com/'' @ format_for_url job_title @ ''-jobs-in-'' @ format_for_url location)"
      by (rule sublist_appendI)
    have "sublist (format_for_url location)
            ((''https://www.naukri.com/'' @ format_for_url job_title @ ''-jobs-in-'') @ format_for_url location)"
      by (rule sublist_append_leftI)
    then have b: "sublist (format_for_url location)
                    (''https://www.naukri.com/'' @ format_for_url job_title @ ''-jobs-in-'' @ format_for_url location)"
      by (simp only: append_assoc)
    from a b show ?thesis unfolding 1 by (rule conjI)
  next
    case 2
    have a: "sublist (format_for_url job_title)
               (''https://www.indeed.com/jobs?q='' @ format_for_url job_title @ ''&l='' @ format_for_url location)"
      by (rule sublist_appendI)
    have "sublist (format_for_url location)
            ((''https://www.indeed.com/jobs?q='' @ format_for_url job_title @ ''&l='') @ format_for_url location)"
      by (rule sublist_append_leftI)
    then have b: "sublist (format_for_url location)
                    (''https://www.indeed.com/jobs?q='' @ format_for_url job_title @ ''&l='' @ format_for_url location)"
      by (simp only: append_assoc)
    from a b show ?thesis unfolding 2 by (rule conjI)
  next
    case 3
    have a: "sublist (format_for_url job_title)
               (''https://www.monster.com/jobs/search/?q='' @ format_for_url job_title @ ''&where='' @ format_for_url location)"
      by (rule sublist_appendI)
    have "sublist (format_for_url location)
            ((''https://www.monster.com/jobs/search/?q='' @ format_for_url job_title @ ''&where='') @ format_for_url location)"
      by (rule sublist_append_leftI)
    then have b: "sublist (format_for_url location)
                    (''https://www.monster.com/jobs/search/?q='' @ format_for_url job_title @ ''&where='' @ format_for_url location)"
      by (simp only: append_assoc)
    from a b show ?thesis unfolding 3 by (rule conjI)
  qed
  then show "sublist (replace_char CHR '' '' CHR ''-'' (lower job_title)) u"
    and "sublist (replace_char CHR '' '' CHR ''-'' (lower location)) u"
    by (simp_all add: format_for_url_def)
next
  show "extract_calls (get_industry_trends trends_extract agent_run job_category) =
          [industry_trends_request job_category]"
    by (rule get_industry_trends_extract_calls)
next
  show "length (req_urls (industry_trends_request job_category)) = 2"
    by (simp add: industry_trends_request_def industry_trend_urls_def)
next
  have "req_urls (industry_trends_request job_category) ! 0 =
          ''https://www.payscale.com/research/US/Job='' @
          replace_char CHR '' '' CHR ''-'' job_category @ ''/Salary''"
    by (simp add: industry_trends_request_def industry_trend_urls_def)
  then show "sublist (replace_char CHR '' '' CHR ''-'' job_category)
          (req_urls (industry_trends_request job_category) ! 0)"
    by (simp only: sublist_appendI)
next
  have "req_urls (industry_trends_request job_category) ! 1 =
          ''https://www.glassdoor.com/Salaries/'' @
          replace_char CHR '' '' CHR ''-'' (lower job_category) @
          (''-salary-SRCH_KO0,'' @ str_nat (py_len job_category) @ ''.htm'')"
    by (simp add: industry_trends_request_def industry_trend_urls_def)
  then show "sublist (replace_char CHR '' '' CHR ''-'' (lower job_category))
          (req_urls (industry_trends_request job_category) ! 1)"
    by (simp only: sublist_appendI)
qed

theorem query_urls_witness:
  "req_urls (job_search_request ''Data Scientist'' ''New York'' (PyInt 3) [''Python'', ''SQL'']) =
     [''https://www.naukri.com/data-scientist-jobs-in-new-york'',
      ''https://www.indeed.com/jobs?q=data-scientist&l=new-york'',
      ''https://www.monster.com/jobs/search/?q=data-scientist&where=new-york''] \<and>
   sublist ''data-scientist''
     (''https://www.monster.com/jobs/search/?q=data-scientist&where=new-york'') \<and>
   length (req_urls (industry_trends_request ''Data Science'')) = 2 \<and>
   sublist ''data-science'' (req_urls (industry_trends_request ''Data Science'') ! 1)"
proof -
  have u: "req_urls (job_search_request ''Data Scientist'' ''New York'' (PyInt 3)
                       [''Python'', ''SQL'']) =
     [''https://www.naukri.com/data-scientist-jobs-in-new-york'',
      ''https://www.indeed.com/jobs?q=data-scientist&l=new-york'',
      ''https://www.monster.com/jobs/search/?q=data-scientist&where=new-york'']"
    by (simp add: job_search_request_def Let_def job_search_urls_def format_for_url_def lower_def
          lower_char_def replace_char_def)
  have l: "replace_char CHR '' '' CHR ''-'' (lower ''Data Scientist'') = ''data-scientist''"
    "replace_char CHR '' '' CHR ''-'' (lower ''Data Science'') = ''data-science''"
    by (simp_all add: lower_def lower_char_def replace_char_def)
  have n: "''Data Scientist'' \<noteq> [] \<and> ''New York'' \<noteq> []" by simp
  note t = query_urls [of "''Data Scientist''" "''New York''" postings_service report_agent
                          "PyInt 3" "[''Python'', ''SQL'']" trends_service "''Data Science''",
                       THEN mp, OF n]
  from t have a: "\<forall>u \<in> set (req_urls (job_search_request ''Data Scientist'' ''New York''
                                           (PyInt 3) [''Python'', ''SQL''])).
                    sublist (replace_char CHR '' '' CHR ''-'' (lower ''Data Scientist'')) u"
    by blast
  from t have b: "length (req_urls (industry_trends_request ''Data Science'')) = 2"
    and c: "sublist (replace_char CHR '' '' CHR ''-'' (lower ''Data Science''))
              (req_urls (industry_trends_request ''Data Science'') ! 1)"
    by blast+
  from a have a': "sublist ''data-scientist''
     (''https://www.monster.com/jobs/search/?q=data-scientist&where=new-york'')"
    unfolding u l by simp
  from c have c': "sublist ''data-science''
                     (req_urls (industry_trends_request ''Data Science'') ! 1)"
    unfolding l .
  from u a' b c' show ?thesis by blast
qed

text \<open>
  C7 as stated fails for the first trend URL: for the category \<open>Marketing\<close> it keeps the
  capital letter, so the lower-cased form \<open>marketing\<close> does not occur in it.
\<close>

theorem payscale_url_keeps_case:
  "req_urls (industry_trends_request ''Marketing'') =
     [''https://www.payscale.com/research/US/Job=Marketing/Salary'',
      ''https://www.glassdoor.com/Salaries/marketing-salary-SRCH_KO0,9.htm''] \<and>
   replace_char CHR '' '' CHR ''-'' (lower ''Marketing'') = ''marketing'' \<and>
   \<not> sublist ''marketing'' ''https://www.payscale.com/research/US/Job=Marketing/Salary''"
proof -
  have a: "req_urls (industry_trends_request ''Marketing'') =
     [''https://www.payscale.com/research/US/Job=Marketing/Salary'',
      ''https://www.glassdoor.com/Salaries/marketing-salary-SRCH_KO0,9.htm'']"
    by (simp add: industry_trends_request_def industry_trend_urls_def lower_def lower_char_def
          replace_char_def py_len_def str_nat.simps digit_char_def)
  have b: "replace_char CHR '' '' CHR ''-'' (lower ''Marketing'') = ''marketing''"
    by (simp add: lower_def lower_char_def replace_char_def)
  have c: "\<not> sublist ''marketing'' ''https://www.payscale.com/research/US/Job=Marketing/Salary''"
    by (simp add: sublist_Cons_right)
  from a b c show ?thesis by simp
qed

subsection \<open>C8: partial records\<close>

text \<open>
  C8, as amended. For every record element obtained from a successful extraction payload,
  the processing of the raw response accepts partial records: the value stored under
  \<open>job_postings\<close> (\<open>industry_trends\<close>) is taken as it is, in both files, so a record with
  missing fields is neither rejected nor changed, and no value is filled in for a missing
  field. For the trend lookup of either file, which has no processing step of its own, the
  list goes unchanged into the one prompt given to \<open>agent.run\<close>.
\<close>

theorem partial_records_pass_unchanged:
  "(success raw_response \<and> data raw_response = PDict kvs \<and>
      map_of kvs ''job_postings'' = Some jobs \<longrightarrow>
      process_jobs_response raw_response = Inr jobs) \<and>
   (map_of entries ''success'' = Some flag \<and> truthy flag \<and> map_of entries ''data'' = Some (PDict kvs) \<and>
      map_of kvs ''job_postings'' = Some jobs \<longrightarrow>
      process_jobs_response_job_hunt (PDict entries) = Inr jobs) \<and>
   (firecrawl_extract (industry_trends_request job_category) = Inr trends_raw \<and>
      success trends_raw \<and> data trends_raw = PDict trend_kvs \<and>
      map_of trend_kvs ''industry_trends'' = Some industries \<and> truthy industries \<longrightarrow>
      run_calls (get_industry_trends firecrawl_extract agent_run job_category) =
        [trends_analysis_prompt industries job_category]) \<and>
   (hunt_extract (industry_trends_request job_category) = Inr (PDict hunt_entries) \<and>
      map_of hunt_entries ''success'' = Some hunt_flag \<and> truthy hunt_flag \<and>
      map_of hunt_entries ''data'' = Some (PDict hunt_kvs) \<and>
      map_of hunt_kvs ''industry_trends'' = Some hunt_industries \<and> truthy hunt_industries \<longrightarrow>
      run_calls (get_industry_trends_job_hunt hunt_extract agent_run job_category) =
        [trends_analysis_prompt hunt_industries job_category])"
proof (intro conjI impI)
  assume "success raw_response \<and> data raw_response = PDict kvs \<and>
            map_of kvs ''job_postings'' = Some jobs"
  then show "process_jobs_response raw_response = Inr jobs"
    by (simp add: process_jobs_response_def py_get_def)
next
  assume "map_of entries ''success'' = Some flag \<and> truthy flag \<and>
            map_of entries ''data'' = Some (PDict kvs) \<and> map_of kvs ''job_postings'' = Some jobs"
  then show "process_jobs_response_job_hunt (PDict entries) = Inr jobs"
    by (simp add: process_jobs_response_job_hunt_def dict_item_def py_get_def)
next
  assume a: "firecrawl_extract (industry_trends_request job_category) = Inr trends_raw \<and>
      success trends_raw \<and> data trends_raw = PDict trend_kvs \<and>
      map_of trend_kvs ''industry_trends'' = Some industries \<and> truthy industries"
  then have "py_get (data trends_raw) ''industry_trends'' (PList []) = Inr industries"
    by (simp add: py_get_def)
  with a show "run_calls (get_industry_trends firecrawl_extract agent_run job_category) =
        [trends_analysis_prompt industries job_category]"
    using get_industry_trends_truthy
            [of firecrawl_extract job_category trends_raw industries agent_run]
    by simp
next
  assume "hunt_extract (industry_trends_request job_category) = Inr (PDict hunt_entries) \<and>
      map_of hunt_entries ''success'' = Some hunt_flag \<and> truthy hunt_flag \<and>
      map_of hunt_entries ''data'' = Some (PDict hunt_kvs) \<and>
      map_of hunt_kvs ''industry_trends'' = Some hunt_industries \<and> truthy hunt_industries"
  then show "run_calls (get_industry_trends_job_hunt hunt_extract agent_run job_category) =
        [trends_analysis_prompt hunt_industries job_category]"
    using get_industry_trends_job_hunt_truthy
            [of hunt_extract job_category hunt_entries hunt_flag hunt_kvs hunt_industries
                agent_run]
    by simp
qed

theorem partial_records_pass_unchanged_witness:
  "process_jobs_response postings_response = Inr (PList [partial_posting]) \<and>
   process_jobs_response_job_hunt postings_response_job_hunt = Inr (PList [partial_posting]) \<and>
   run_calls (get_industry_trends trends_service report_agent ''Marketing'') =
     [trends_analysis_prompt (PList [trend_record]) ''Marketing''] \<and>
   run_calls (get_industry_trends_job_hunt trends_service_job_hunt report_agent ''Marketing'') =
     [trends_analysis_prompt (PList [trend_record]) ''Marketing'']"
proof -
  have a: "success postings_response"
    "data postings_response = PDict [(''job_postings'', PList [partial_posting])]"
    "map_of [(''job_postings'', PList [partial_posting])] ''job_postings'' =
       Some (PList [partial_posting])"
    by (simp_all add: postings_response_def)
  have b: "map_of [(''success'', PBool True),
                   (''data'', PDict [(''job_postings'', PList [partial_posting])])] ''success'' =
             Some (PBool True)"
    "truthy (PBool True)"
    "map_of [(''success'', PBool True),
             (''data'', PDict [(''job_postings'', PList [partial_posting])])] ''data'' =
       Some (PDict [(''job_postings'', PList [partial_posting])])"
    by simp_all
  have c: "trends_service (industry_trends_request ''Marketing'') = Inr trends_response"
    "success trends_response"
    "data trends_response = PDict [(''industry_trends'', PList [trend_record])]"
    "map_of [(''industry_trends'', PList [trend_record])] ''industry_trends'' =
       Some (PList [trend_record])"
    "truthy (PList [trend_record])"
    by (simp_all add: trends_service_def trends_response_def)
  have d: "trends_service_job_hunt (industry_trends_request ''Marketing'') =
             Inr (PDict [(''success'', PBool True),
                         (''data'', PDict [(''industry_trends'', PList [trend_record])])])"
    "map_of [(''success'', PBool True),
             (''data'', PDict [(''industry_trends'', PList [trend_record])])] ''success'' =
       Some (PBool True)"
    "map_of [(''success'', PBool True),
             (''data'', PDict [(''industry_trends'', PList [trend_record])])] ''data'' =
       Some (PDict [(''industry_trends'', PList [trend_record])])"
    by (simp_all add: trends_service_job_hunt_def trends_response_job_hunt_def)
  note t = partial_records_pass_unchanged
         [where raw_response = postings_response
            and kvs = "[(''job_postings'', PList [partial_posting])]"
            and jobs = "PList [partial_posting]"
            and entries = "[(''success'', PBool True),
                            (''data'', PDict [(''job_postings'', PList [partial_posting])])]"
            and flag = "PBool True"
            and firecrawl_extract = trends_service and job_category = "''Marketing''"
            and trends_raw = trends_response
            and trend_kvs = "[(''industry_trends'', PList [trend_record])]"
            and industries = "PList [trend_record]" and agent_run = report_agent
            and hunt_extract = trends_service_job_hunt
            and hunt_entries = "[(''success'', PBool True),
                                 (''data'', PDict [(''industry_trends'', PList [trend_record])])]"
            and hunt_flag = "PBool True"
            and hunt_kvs = "[(''industry_trends'', PList [trend_record])]"
            and hunt_industries = "PList [trend_record]"]
  from t [THEN conjunct1] a
  have 1: "process_jobs_response postings_response = Inr (PList [partial_posting])"
    by simp
  from t [THEN conjunct2, THEN conjunct1] b a(3)
  have 2: "process_jobs_response_job_hunt postings_response_job_hunt =
             Inr (PList [partial_posting])"
    by (simp add: postings_response_job_hunt_def)
  from t [THEN conjunct2, THEN conjunct2, THEN conjunct1] c
  have 3: "run_calls (get_industry_trends trends_service report_agent ''Marketing'') =
             [trends_analysis_prompt (PList [trend_record]) ''Marketing'']"
    by simp
  from t [THEN conjunct2, THEN conjunct2, THEN conjunct2] d b(2) c(4,5)
  have 4: "run_calls (get_industry_trends_job_hunt trends_service_job_hunt report_agent
                        ''Marketing'') =
             [trends_analysis_prompt (PList [trend_record]) ''Marketing'']"
    by simp
  from 1 2 3 4 show ?thesis by simp
qed

text \<open>
  C8 as stated fails: a posting that comes with the field \<open>role\<close> alone leaves the
  processing with that one field, in both files. Its \<open>region\<close> is still absent, not set
  to a sentinel, and the text given to the synthesis step shows the record as received.
\<close>

theorem partial_posting_not_filled:
  "process_jobs_response postings_response = Inr (PList [PDict [(''role'', PStr ''dev'')]]) \<and>
   process_jobs_response_job_hunt postings_response_job_hunt =
     Inr (PList [PDict [(''role'', PStr ''dev'')]]) \<and>
   map_of [(''role'', PStr ''dev'')] ''region'' = None \<and>
   run_calls (find_jobs postings_service report_agent ''Data Scientist'' ''New York'' (PyInt 3)
                [''Python'', ''SQL'']) =
     [job_analysis_prompt (PList [PDict [(''role'', PStr ''dev'')]]) ''Data Scientist''
        ''New York'' (PyInt 3) ''Python, SQL''] \<and>
   py_str (PList [PDict [(''role'', PStr ''dev'')]]) =
     ''[{'' @ [CHR 0x27] @ ''role'' @ [CHR 0x27] @ '': '' @ [CHR 0x27] @ ''dev'' @ [CHR 0x27] @ ''}]''"
proof -
  have p: "process_jobs_response postings_response = Inr (PList [PDict [(''role'', PStr ''dev'')]])"
    by (simp add: process_jobs_response_def postings_response_def partial_posting_def py_get_def)
  have h: "process_jobs_response_job_hunt postings_response_job_hunt =
             Inr (PList [PDict [(''role'', PStr ''dev'')]])"
    by (simp add: process_jobs_response_job_hunt_def postings_response_job_hunt_def
          partial_posting_def dict_item_def py_get_def)
  have r: "run_calls (find_jobs postings_service report_agent ''Data Scientist'' ''New York''
                        (PyInt 3) [''Python'', ''SQL'']) =
             [job_analysis_prompt (PList [PDict [(''role'', PStr ''dev'')]]) ''Data Scientist''
                ''New York'' (PyInt 3) ''Python, SQL'']"
    using find_jobs_truthy
            [of postings_service "''Data Scientist''" "''New York''" "PyInt 3"
                "[''Python'', ''SQL'']" postings_response
                "PList [PDict [(''role'', PStr ''dev'')]]" report_agent]
          p
    by (simp add: postings_service_def)
  have s: "py_str (PList [PDict [(''role'', PStr ''dev'')]]) =
     ''[{'' @ [CHR 0x27] @ ''role'' @ [CHR 0x27] @ '': '' @ [CHR 0x27] @ ''dev'' @ [CHR 0x27] @ ''}]''"
    by (simp add: py_str_def repr_str_def repr_char_def Let_def)
  from p h r s show ?thesis by simp
qed

subsection \<open>C9: the misspelled error strings of job-hunt.py\<close>

text \<open>
  C9, as amended. In \<open>job-hunt.py\<close>, for every instance of \<open>Exception\<close> raised in the
  \<open>try\<close> block, and so for every such exception of the extraction call or of the
  synthesis call, \<open>find_jobs\<close> returns a string that begins with the misspelled
  \<open>An error occured\<close>, and \<open>get_industry_trends\<close> one that begins with
  \<open>An error occurerd\<close>. Such a string contains \<open>An error occurred\<close>, the words \<open>main\<close>
  looks for, exactly when the exception's description contains them; so for these strings
  the error display of \<open>main\<close> is reached only through the text of the exception.
\<close>

theorem misspelled_error_strings:
  "(result (find_jobs_try_job_hunt firecrawl_extract agent_run job_title location
              experience_years skills) = Inl e \<and> is_Exception e \<longrightarrow>
      result (find_jobs_job_hunt firecrawl_extract agent_run job_title location experience_years
                skills) = Inr (find_jobs_error_message e)) \<and>
   (firecrawl_extract (job_search_request job_title location experience_years skills) = Inl e \<longrightarrow>
      result (find_jobs_try_job_hunt firecrawl_extract agent_run job_title location
                experience_years skills) = Inl e) \<and>
   (firecrawl_extract (job_search_request job_title location experience_years skills) =
      Inr raw_response \<and>
    process_jobs_response_job_hunt raw_response = Inr jobs \<and> truthy jobs \<and>
    agent_run (job_analysis_prompt jobs job_title location experience_years (join '', '' skills))
      = Inl e \<longrightarrow>
      result (find_jobs_try_job_hunt firecrawl_extract agent_run job_title location
                experience_years skills) = Inl e) \<and>
   (result (get_industry_trends_try_job_hunt firecrawl_extract agent_run job_category) = Inl e \<and>
    is_Exception e \<longrightarrow>
      result (get_industry_trends_job_hunt firecrawl_extract agent_run job_category) =
        Inr (get_industry_trends_error_message e)) \<and>
   (firecrawl_extract (industry_trends_request job_category) = Inl e \<longrightarrow>
      result (get_industry_trends_try_job_hunt firecrawl_extract agent_run job_category) = Inl e) \<and>
   (firecrawl_extract (industry_trends_request job_category) = Inr (PDict entries) \<and>
    map_of entries ''success'' = Some flag \<and> truthy flag \<and>
    map_of entries ''data'' = Some (PDict kvs) \<and>
    map_of kvs ''industry_trends'' = Some industries \<and> truthy industries \<and>
    agent_run (trends_analysis_prompt industries job_category) = Inl e \<longrightarrow>
      result (get_industry_trends_try_job_hunt firecrawl_extract agent_run job_category) = Inl e) \<and>
   prefix ''An error occured'' (find_jobs_error_message e) \<and>
   prefix ''An error occurerd'' (get_industry_trends_error_message e) \<and>
   (main_shows_error_job_hunt (find_jobs_error_message e) \<longleftrightarrow>
      sublist ''An error occurred'' (description e)) \<and>
   (main_shows_error_job_hunt (get_industry_trends_error_message e) \<longleftrightarrow>
      sublist ''An error occurred'' (description e))"
proof (intro conjI impI)
  assume "result (find_jobs_try_job_hunt firecrawl_extract agent_run job_title location
                    experience_years skills) = Inl e \<and> is_Exception e"
  then show "result (find_jobs_job_hunt firecrawl_extract agent_run job_title location
                       experience_years skills) = Inr (find_jobs_error_message e)"
    by (simp add: find_jobs_job_hunt_def except_Exception_def)
next
  assume "firecrawl_extract (job_search_request job_title location experience_years skills) =
            Inl e"
  then show "result (find_jobs_try_job_hunt firecrawl_extract agent_run job_title location
                       experience_years skills) = Inl e"
    by (simp add: find_jobs_try_job_hunt_def)
next
  assume "firecrawl_extract (job_search_request job_title location experience_years skills) =
      Inr raw_response \<and>
    process_jobs_response_job_hunt raw_response = Inr jobs \<and> truthy jobs \<and>
    agent_run (job_analysis_prompt jobs job_title location experience_years (join '', '' skills))
      = Inl e"
  then show "result (find_jobs_try_job_hunt firecrawl_extract agent_run job_title location
                       experience_years skills) = Inl e"
    by (simp add: find_jobs_try_job_hunt_def)
next
  assume "result (get_industry_trends_try_job_hunt firecrawl_extract agent_run job_category) =
            Inl e \<and> is_Exception e"
  then show "result (get_industry_trends_job_hunt firecrawl_extract agent_run job_category) =
        Inr (get_industry_trends_error_message e)"
    by (simp add: get_industry_trends_job_hunt_def except_Exception_def)
next
  assume "firecrawl_extract (industry_trends_request job_category) = Inl e"
  then show "result (get_industry_trends_try_job_hunt firecrawl_extract agent_run job_category) =
               Inl e"
    by (simp add: get_industry_trends_try_job_hunt_def)
next
  assume "firecrawl_extract (industry_trends_request job_category) = Inr (PDict entries) \<and>
    map_of entries ''success'' = Some flag \<and> truthy flag \<and>
    map_of entries ''data'' = Some (PDict kvs) \<and>
    map_of kvs ''industry_trends'' = Some industries \<and> truthy industries \<and>
    agent_run (trends_analysis_prompt industries job_category) = Inl e"
  then show "result (get_industry_trends_try_job_hunt firecrawl_extract agent_run job_category) =
               Inl e"
    by (simp add: get_industry_trends_try_job_hunt_def dict_item_def py_get_def)
next
  show "prefix ''An error occured'' (find_jobs_error_message e)"
    by (simp add: find_jobs_error_message_def)
next
  show "prefix ''An error occurerd'' (get_industry_trends_error_message e)"
    by (simp add: get_industry_trends_error_message_def)
next
  show "main_shows_error_job_hunt (find_jobs_error_message e) \<longleftrightarrow>
          sublist ''An error occurred'' (description e)"
    unfolding main_shows_error_job_hunt_def by (rule find_jobs_error_message_occurred)
next
  show "main_shows_error_job_hunt (get_industry_trends_error_message e) \<longleftrightarrow>
          sublist ''An error occurred'' (description e)"
    unfolding main_shows_error_job_hunt_def by (rule get_industry_trends_error_message_occurred)
qed

theorem misspelled_error_strings_witness:
  "result (find_jobs_job_hunt timeout_service_job_hunt report_agent ''Data Scientist''
             ''New York'' (PyInt 3) [''Python'', ''SQL'']) =
     Inr (find_jobs_error_message (Exception ''Connection timed out'')) \<and>
   \<not> main_shows_error_job_hunt (find_jobs_error_message (Exception ''Connection timed out''))"
proof -
  note t = misspelled_error_strings
             [of timeout_service_job_hunt report_agent "''Data Scientist''" "''New York''"
                 "PyInt 3" "[''Python'', ''SQL'']" "Exception ''Connection timed out''"]
  have a: "timeout_service_job_hunt (job_search_request ''Data Scientist'' ''New York'' (PyInt 3)
                                       [''Python'', ''SQL'']) =
             Inl (Exception ''Connection timed out'')"
    by (simp add: timeout_service_job_hunt_def)
  from t [THEN conjunct2, THEN conjunct1] a
  have b: "result (find_jobs_try_job_hunt timeout_service_job_hunt report_agent
                     ''Data Scientist'' ''New York'' (PyInt 3) [''Python'', ''SQL'']) =
             Inl (Exception ''Connection timed out'')"
    by simp
  from t [THEN conjunct1] b
  have c: "result (find_jobs_job_hunt timeout_service_job_hunt report_agent ''Data Scientist''
             ''New York'' (PyInt 3) [''Python'', ''SQL'']) =
     Inr (find_jobs_error_message (Exception ''Connection timed out''))"
    by simp
  have n: "\<not> sublist ''An error occurred'' ''Connection timed out''"
    by (simp add: sublist_Cons_right)
  from t [THEN conjunct2, THEN conjunct2, THEN conjunct2, THEN conjunct2, THEN conjunct2,
          THEN conjunct2, THEN conjunct2, THEN conjunct2, THEN conjunct1] n
  have d: "\<not> main_shows_error_job_hunt
               (find_jobs_error_message (Exception ''Connection timed out''))"
    by simp
  from c d show ?thesis by (rule conjI)
qed

text \<open>
  C9 as stated fails: the returned string does contain \<open>An error occurred\<close> when the
  exception's own text has these words, and the content of a successful synthesis may
  have them as well; in both cases the test of \<open>main\<close> holds.
\<close>

theorem error_display_is_reachable:
  "result (find_jobs_job_hunt occurred_service_job_hunt report_agent ''Data Scientist''
             ''New York'' (PyInt 3) [''Python'', ''SQL'']) =
     Inr (''An error occured while searching for jobs: An error occurred: 503\<newline>\<newline>'' @
          ''Please try again with different search parameters or check if the job sites are supported by Firecrawl.'') \<and>
   main_shows_error_job_hunt
     (''An error occured while searching for jobs: An error occurred: 503\<newline>\<newline>'' @
      ''Please try again with different search parameters or check if the job sites are supported by Firecrawl.'') \<and>
   result (find_jobs_job_hunt postings_service_job_hunt apologising_agent ''Data Scientist''
             ''New York'' (PyInt 3) [''Python'', ''SQL'']) =
     Inr ''An error occurred while writing the report.'' \<and>
   main_shows_error_job_hunt ''An error occurred while writing the report.''"
proof -
  have a: "result (find_jobs_job_hunt occurred_service_job_hunt report_agent ''Data Scientist''
             ''New York'' (PyInt 3) [''Python'', ''SQL'']) =
     Inr (''An error occured while searching for jobs: An error occurred: 503\<newline>\<newline>'' @
          ''Please try again with different search parameters or check if the job sites are supported by Firecrawl.'')"
    using find_jobs_job_hunt_extract_raises
            [of occurred_service_job_hunt "''Data Scientist''" "''New York''" "PyInt 3"
                "[''Python'', ''SQL'']" "Exception ''An error occurred: 503''" report_agent]
    by (simp add: occurred_service_job_hunt_def find_jobs_error_message_def)
  have "sublist ''An error occurred''
          (''An error occured while searching for jobs: '' @ ''An error occurred'' @
           '': 503\<newline>\<newline>Please try again with different search parameters or check if the job sites are supported by Firecrawl.'')"
    by (rule sublist_appendI)
  then have b: "main_shows_error_job_hunt
     (''An error occured while searching for jobs: An error occurred: 503\<newline>\<newline>'' @
      ''Please try again with different search parameters or check if the job sites are supported by Firecrawl.'')"
    by (simp add: main_shows_error_job_hunt_def)
  have p: "process_jobs_response_job_hunt postings_response_job_hunt =
             Inr (PList [partial_posting])"
    by (simp add: process_jobs_response_job_hunt_def postings_response_job_hunt_def
          dict_item_def py_get_def)
  have c: "result (find_jobs_job_hunt postings_service_job_hunt apologising_agent
                     ''Data Scientist'' ''New York'' (PyInt 3) [''Python'', ''SQL'']) =
     Inr ''An error occurred while writing the report.''"
    using find_jobs_job_hunt_truthy
            [of postings_service_job_hunt "''Data Scientist''" "''New York''" "PyInt 3"
                "[''Python'', ''SQL'']" postings_response_job_hunt "PList [partial_posting]"
                apologising_agent]
          p
    by (simp add: postings_service_job_hunt_def apologising_agent_def)
  have "sublist ''An error occurred'' (''An error occurred'' @ '' while writing the report.'')"
    by (rule sublist_append_rightI)
  then have d: "main_shows_error_job_hunt ''An error occurred while writing the report.''"
    by (simp add: main_shows_error_job_hunt_def)
  from a b c d show ?thesis by simp
qed

subsection \<open>C10: the two empty-outcome messages of the trend lookup\<close>

text \<open>
  C10. In \<open>get_industry_trends\<close> the string returned when the success flag is false and
  the string returned when extraction succeeded but \<open>industry_trends\<close> is missing or
  empty are different texts, for any two job categories; both contain the caller's
  \<open>job_category\<close> and change with it, so neither is a fixed string and the caller can tell
  the two causes apart.
\<close>

theorem trend_fallback_messages_distinguish_causes:
  "(firecrawl_extract (industry_trends_request job_category) = Inr raw_response \<and>
      \<not> success raw_response \<longrightarrow>
      result (get_industry_trends firecrawl_extract agent_run job_category) =
        Inr (''No industry trend data available for '' @ job_category @
             ''.Try different industry category.'')) \<and>
   (firecrawl_extract (industry_trends_request job_category) = Inr raw_response \<and>
      success raw_response \<and> data raw_response = PDict kvs \<and>
      (map_of kvs ''industry_trends'' = None \<or> map_of kvs ''industry_trends'' = Some (PList [])) \<longrightarrow>
      result (get_industry_trends firecrawl_extract agent_run job_category) =
        Inr (''No industry trends data available for '' @ job_category @
             ''.Try a different industry category.'')) \<and>
   ''No industry trend data available for '' @ job_category @ ''.Try different industry category.''
     \<noteq> ''No industry trends data available for '' @ other_category @
         ''.Try a different industry category.'' \<and>
   sublist job_category (no_trend_data_message job_category) \<and>
   sublist job_category (no_trends_data_message job_category) \<and>
   (no_trend_data_message job_category = no_trend_data_message other_category
      \<longleftrightarrow> job_category = other_category) \<and>
   (no_trends_data_message job_category = no_trends_data_message other_category
      \<longleftrightarrow> job_category = other_category)"
proof -
  have falsy: "py_get (PDict kvs) ''industry_trends'' (PList []) = Inr (PList [])"
    if "map_of kvs ''industry_trends'' = None \<or> map_of kvs ''industry_trends'' = Some (PList [])"
    using that by (auto simp: py_get_def)
  have a: "result (get_industry_trends firecrawl_extract agent_run job_category) =
        Inr (''No industry trend data available for '' @ job_category @
             ''.Try different industry category.'')"
    if "firecrawl_extract (industry_trends_request job_category) = Inr raw_response"
       "\<not> success raw_response"
    using get_industry_trends_no_success [of firecrawl_extract job_category raw_response agent_run]
      that
    by (simp add: no_trend_data_message_def)
  have b: "result (get_industry_trends firecrawl_extract agent_run job_category) =
        Inr (''No industry trends data available for '' @ job_category @
             ''.Try a different industry category.'')"
    if "firecrawl_extract (industry_trends_request job_category) = Inr raw_response"
       "success raw_response" "data raw_response = PDict kvs"
       "map_of kvs ''industry_trends'' = None \<or> map_of kvs ''industry_trends'' = Some (PList [])"
    using get_industry_trends_falsy
            [of firecrawl_extract job_category raw_response "PList []" agent_run]
          falsy [OF that(4)] that(1,2,3)
    by (simp add: no_trends_data_message_def)
  have c: "sublist job_category (no_trend_data_message job_category)"
    "sublist job_category (no_trends_data_message job_category)"
    unfolding no_trend_data_message_def no_trends_data_message_def
    by (rule sublist_concat_member, simp)+
  have d: "(no_trend_data_message job_category = no_trend_data_message other_category
      \<longleftrightarrow> job_category = other_category)"
    "(no_trends_data_message job_category = no_trends_data_message other_category
      \<longleftrightarrow> job_category = other_category)"
    by (simp_all add: no_trend_data_message_def no_trends_data_message_def)
  from a b c d show ?thesis by simp
qed

theorem trend_fallback_messages_distinguish_causes_witness:
  "result (get_industry_trends failed_service report_agent ''Marketing'') =
     Inr ''No industry trend data available for Marketing.Try different industry category.'' \<and>
   result (get_industry_trends empty_service report_agent ''Marketing'') =
     Inr ''No industry trends data available for Marketing.Try a different industry category.''"
proof -
  have f: "failed_service (industry_trends_request ''Marketing'') = Inr failed_response"
    "\<not> success failed_response"
    by (simp_all add: failed_response_def failed_service_def)
  have e: "empty_service (industry_trends_request ''Marketing'') = Inr empty_response"
    "success empty_response" "data empty_response = PDict []"
    "map_of ([] :: (string \<times> pyval) list) ''industry_trends'' = None"
    by (simp_all add: empty_response_def empty_service_def)
  from trend_fallback_messages_distinguish_causes
         [of failed_service "''Marketing''" failed_response report_agent "[]" "''Sales''"]
       trend_fallback_messages_distinguish_causes
         [of empty_service "''Marketing''" empty_response report_agent "[]" "''Sales''"]
       f e
  show ?thesis by simp
qed

end
